theory Spec2Isabelle
  imports Complex_Main "HOL-Library.Sublist" "HOL-Library.AList"
begin

section \<open>Data model (models.py)\<close>

text \<open>
  The dataclasses of \<^verbatim>\<open>models.py\<close> become records. Fields that carry the same name
  in two dataclasses get a prefix (\<open>raw_\<close>, \<open>prep_\<close>, \<open>alert_\<close>, \<open>settings_\<close>), since a
  record field is a global constant. A \<^verbatim>\<open>datetime\<close> is an \<open>int\<close> (seconds on
  some fixed calendar). A Python \<^verbatim>\<open>float\<close> is a \<open>real\<close>, and where the code computes
  with floats the rounding to double precision is written out (see the detector); the
  values \<^verbatim>\<open>inf\<close> and \<^verbatim>\<open>nan\<close> have no counterpart. A \<^verbatim>\<open>Dict[str, str]\<close> is a map.
\<close>

type_synonym datetime = int

record RawData =
  raw_id :: string
  raw_timestamp :: datetime
  source :: string
  attributes :: "string \<rightharpoonup> string"

record PreparedData =
  prep_id :: string
  prep_timestamp :: datetime
  data_type :: string
  features :: "real list"

record User =
  user_id :: string
  username :: string
  role :: string
  email :: string

record Anomaly =
  anomaly_id :: string
  data_id :: string
  detection_time :: datetime
  score :: real
  description :: string
  severity :: string

record Alert =
  alert_id :: string
  alert_anomaly_id :: string
  time_raised :: datetime
  message :: string
  status :: string

text \<open>
  \<^verbatim>\<open>DetectionSettings.sensitivity\<close> is declared \<^verbatim>\<open>float  # 0.0 to 1.0\<close>, and
  \<^verbatim>\<open>detect\<close> tests it against \<^verbatim>\<open>None\<close>, so the field is optional here.
\<close>

record DetectionSettings =
  settings_user_id :: string
  sensitivity :: "real option"
  monitored_sources :: "string list"

text \<open>The exceptions the modelled code can raise.\<close>

datatype error = ValueError | IndexError | ZeroDivisionError

section \<open>Feature extraction (controllers.py, \<^verbatim>\<open>preprocess_data\<close>)\<close>

text \<open>
  \<^verbatim>\<open>attributes.get(key, '0')\<close>: a missing key reads as the string \<^verbatim>\<open>'0'\<close>.
\<close>

definition get_or_zero :: "(string \<rightharpoonup> string) \<Rightarrow> string \<Rightarrow> string" where
  "get_or_zero attrs key = (case attrs key of None \<Rightarrow> ''0'' | Some v \<Rightarrow> v)"

text \<open>
  \<^verbatim>\<open>preprocess_data\<close>: the discriminant is \<^verbatim>\<open>attributes.get('type', '')\<close>; each known
  discriminant parses one attribute with \<^verbatim>\<open>float\<close>; any other discriminant raises
  \<^verbatim>\<open>ValueError("Unknown data type")\<close>. Python's builtin \<^verbatim>\<open>float\<close> is the parameter
  \<open>parse\<close>: \<open>None\<close> where \<^verbatim>\<open>float\<close> raises \<^verbatim>\<open>ValueError\<close>, the value otherwise. A
  feature is a real number, so the results infinity and not-a-number of \<^verbatim>\<open>float\<close> have
  no counterpart.
\<close>

definition preprocess_data :: "(string \<Rightarrow> real option) \<Rightarrow> RawData \<Rightarrow> error + PreparedData" where
  "preprocess_data parse raw_data =
     (let dt = (case attributes raw_data ''type'' of None \<Rightarrow> [] | Some t \<Rightarrow> t)
      in if dt = ''1'' then
           (case parse (get_or_zero (attributes raw_data) ''temperature'') of
              None \<Rightarrow> Inl ValueError
            | Some temp \<Rightarrow>
                Inr \<lparr>prep_id = raw_id raw_data, prep_timestamp = raw_timestamp raw_data,
                     data_type = ''sensor'', features = [temp]\<rparr>)
         else if dt = ''2'' then
           (case parse (get_or_zero (attributes raw_data) ''time_of_day'') of
              None \<Rightarrow> Inl ValueError
            | Some time_of_day \<Rightarrow>
                Inr \<lparr>prep_id = raw_id raw_data, prep_timestamp = raw_timestamp raw_data,
                     data_type = ''transaction'', features = [time_of_day]\<rparr>)
         else if dt = ''3'' then
           (case parse (get_or_zero (attributes raw_data) ''volume'') of
              None \<Rightarrow> Inl ValueError
            | Some volume \<Rightarrow>
                Inr \<lparr>prep_id = raw_id raw_data, prep_timestamp = raw_timestamp raw_data,
                     data_type = ''traffic'', features = [volume]\<rparr>)
         else Inl ValueError)"

section \<open>Detector (detectors.py)\<close>

record SimpleAnomalyDetector =
  global_sensitivity :: real

text \<open>
  The sensitivity \<^verbatim>\<open>detect\<close> works with: that of the settings, or the detector's
  global one when the settings carry \<^verbatim>\<open>None\<close>.
\<close>

definition effective_sensitivity :: "SimpleAnomalyDetector \<Rightarrow> DetectionSettings \<Rightarrow> real" where
  "effective_sensitivity self settings =
     (case sensitivity settings of Some x \<Rightarrow> x | None \<Rightarrow> global_sensitivity self)"

subsection \<open>Double-precision rounding\<close>

text \<open>
  Python's \<^verbatim>\<open>float\<close> is the IEEE 754 binary64 format, and every arithmetic operation
  returns the exact result rounded to the nearest double, ties to the double with an even
  significand. \<open>rne\<close> rounds a real to the nearest integer, ties to even. \<open>binade\<close> is
  the exponent \<open>e\<close> with \<open>2\<^sup>e \<le> \<bar>x\<bar> < 2\<^sup>e\<^sup>+\<^sup>1\<close>, held at -1022 below the smallest normal
  number, so that the doubles near \<open>x\<close> are the integer multiples of \<open>2\<^sup>e\<^sup>-\<^sup>5\<^sup>2\<close> (down
  to \<open>2\<^sup>-\<^sup>1\<^sup>0\<^sup>7\<^sup>4\<close> for the subnormal numbers). \<open>round_double\<close> is the rounding. A
  double is a real number here: results beyond the largest double, where Python gives
  infinity, and not-a-number are outside the model, and the two zeros are one.
\<close>

definition rne :: "real \<Rightarrow> int" where
  "rne y =
     (let f = \<lfloor>y\<rfloor>; r = y - of_int f
      in if r < 1 / 2 then f else if 1 / 2 < r then f + 1
         else if even f then f else f + 1)"

definition binade :: "real \<Rightarrow> int" where
  "binade x = max \<lfloor>log 2 \<bar>x\<bar>\<rfloor> (- 1022)"

definition round_double :: "real \<Rightarrow> real" where
  "round_double x =
     (if x = 0 then 0
      else sgn x * of_int (rne (\<bar>x\<bar> / 2 powi (binade x - 52))) * 2 powi (binade x - 52))"

subsection \<open>\<^verbatim>\<open>detect\<close>\<close>

text \<open>
  \<^verbatim>\<open>detect\<close>, with the rounding of each floating-point operation written out as
  \<open>rnd\<close>: the literal \<^verbatim>\<open>1.1\<close> is the rounded eleven tenths, and every difference, sum,
  product and quotient is rounded; the other literals are integers and exact. Two values
  come from outside the repository and are parameters: \<open>fmt\<close>, the text Python's f-string
  gives a float, and \<open>uid\<close>, the result of \<^verbatim>\<open>str(uuid.uuid4())\<close>. \<^verbatim>\<open>features[0]\<close> on an
  empty list raises \<^verbatim>\<open>IndexError\<close>; a division by a zero threshold or bound raises
  \<^verbatim>\<open>ZeroDivisionError\<close>. In the transaction branch \<open>scored\<close> is the pair of
  \<^verbatim>\<open>score\<close> and \<^verbatim>\<open>desc\<close> after the \<^verbatim>\<open>if\<close>/\<^verbatim>\<open>elif\<close> (initially 0.0 and the empty
  string), which the gate \<^verbatim>\<open>score > 100\<close> then reads. A category other than the three
  known ones falls through to \<^verbatim>\<open>return None\<close>.
\<close>

definition detect_rnd ::
  "(real \<Rightarrow> real) \<Rightarrow> (real \<Rightarrow> string) \<Rightarrow> string \<Rightarrow> SimpleAnomalyDetector \<Rightarrow> PreparedData
     \<Rightarrow> DetectionSettings \<Rightarrow> error + Anomaly option" where
  "detect_rnd rnd fmt uid self d settings =
     (let s = effective_sensitivity self settings
      in if data_type d = ''sensor'' then
           (case features d of
              [] \<Rightarrow> Inl IndexError
            | temp # _ \<Rightarrow>
                (let threshold = rnd (rnd (rnd (11 / 10) - s) * 150)
                 in if temp > threshold then
                      (if threshold = 0 then Inl ZeroDivisionError
                       else
                         (let sc = rnd (rnd (temp / threshold) * 100);
                              desc = ''sensor: Temperature '' @ fmt temp
                                       @ '' exceeds threshold '' @ fmt threshold;
                              sev = (if sc > 150 then ''high'' else ''medium'')
                          in Inr (Some \<lparr>anomaly_id = uid, data_id = prep_id d,
                                detection_time = prep_timestamp d, score = sc,
                                description = desc, severity = sev\<rparr>)))
                    else Inr None))
         else if data_type d = ''traffic'' then
           (case features d of
              [] \<Rightarrow> Inl IndexError
            | volume # _ \<Rightarrow>
                (let threshold = rnd (rnd (rnd (11 / 10) - s) * 1000)
                 in if volume > threshold then
                      (if threshold = 0 then Inl ZeroDivisionError
                       else
                         (let sc = rnd (rnd (volume / threshold) * 100);
                              desc = ''traffic: Volume '' @ fmt volume
                                       @ '' exceeds threshold '' @ fmt threshold;
                              sev = (if sc > 150 then ''high'' else ''medium'')
                          in Inr (Some \<lparr>anomaly_id = uid, data_id = prep_id d,
                                detection_time = prep_timestamp d, score = sc,
                                description = desc, severity = sev\<rparr>)))
                    else Inr None))
         else if data_type d = ''transaction'' then
           (case features d of
              [] \<Rightarrow> Inl IndexError
            | time_val # _ \<Rightarrow>
                (let lower = rnd (s * 8);
                     upper = rnd (rnd (s * 22) + rnd (1 - rnd (s * 2)));
                     scored =
                       (if time_val < lower then
                          Inr (if time_val > 0 then rnd (rnd (lower / time_val) * 100) else 200,
                               ''transaction: Time '' @ fmt time_val
                                 @ '' below lower bound '' @ fmt lower)
                        else if time_val > upper then
                          (if upper = 0 then Inl ZeroDivisionError
                           else Inr (rnd (rnd (time_val / upper) * 100),
                                     ''transaction: Time '' @ fmt time_val
                                       @ '' above upper bound '' @ fmt upper))
                        else Inr (0, []))
                 in case scored of
                      Inl e \<Rightarrow> Inl e
                    | Inr (sc, desc) \<Rightarrow>
                        if sc > 100 then
                          Inr (Some \<lparr>anomaly_id = uid, data_id = prep_id d,
                            detection_time = prep_timestamp d, score = sc,
                            description = desc,
                            severity = (if sc > 150 then ''high'' else ''medium'')\<rparr>)
                        else Inr None))
         else Inr None)"

text \<open>
  \<open>detect_double\<close> is \<^verbatim>\<open>detect\<close> as Python runs it, in double precision. \<open>detect\<close>
  is the same code in exact arithmetic, with no rounding at all; the calibration search
  and the statements about scores above 100 and about description prefixes are made for
  it.
\<close>

definition detect_double ::
  "(real \<Rightarrow> string) \<Rightarrow> string \<Rightarrow> SimpleAnomalyDetector \<Rightarrow> PreparedData \<Rightarrow> DetectionSettings
     \<Rightarrow> error + Anomaly option" where
  "detect_double = detect_rnd round_double"


definition set_global_sensitivity :: "real \<Rightarrow> SimpleAnomalyDetector \<Rightarrow> SimpleAnomalyDetector" where
  "set_global_sensitivity x self = self\<lparr>global_sensitivity := x\<rparr>"





section \<open>Store (data_storage.py)\<close>

record InMemoryDataStorage =
  raw_data :: "RawData list"
  prepared_data :: "PreparedData list"
  anomalies :: "Anomaly list"

definition store_raw_data :: "RawData \<Rightarrow> InMemoryDataStorage \<Rightarrow> InMemoryDataStorage" where
  "store_raw_data d self = self\<lparr>raw_data := raw_data self @ [d]\<rparr>"

definition store_prepared_data :: "PreparedData \<Rightarrow> InMemoryDataStorage \<Rightarrow> InMemoryDataStorage" where
  "store_prepared_data d self = self\<lparr>prepared_data := prepared_data self @ [d]\<rparr>"

definition store_anomaly :: "Anomaly \<Rightarrow> InMemoryDataStorage \<Rightarrow> InMemoryDataStorage" where
  "store_anomaly a self = self\<lparr>anomalies := anomalies self @ [a]\<rparr>"

definition get_historical_data ::
  "InMemoryDataStorage \<Rightarrow> datetime \<Rightarrow> datetime \<Rightarrow> PreparedData list" where
  "get_historical_data self start_time end_time =
     filter (\<lambda>d. start_time \<le> prep_timestamp d \<and> prep_timestamp d \<le> end_time)
       (prepared_data self)"

text \<open>\<^verbatim>\<open>role_map.get(role, '')\<close>.\<close>

definition role_map :: "string \<Rightarrow> string" where
  "role_map r =
     (if r = ''security'' then ''traffic''
      else if r = ''equipment'' then ''sensor''
      else if r = ''fraud'' then ''transaction''
      else [])"

text \<open>
  \<^verbatim>\<open>get_anomalies\<close>: \<^verbatim>\<open>description.startswith(allowed_type + ":")\<close> is \<open>prefix\<close>; the
  time range is inclusive at both ends.
\<close>

definition get_anomalies ::
  "InMemoryDataStorage \<Rightarrow> string \<Rightarrow> datetime \<Rightarrow> datetime \<Rightarrow> Anomaly list" where
  "get_anomalies self r start_time end_time =
     filter (\<lambda>a. prefix (role_map r @ '':'') (description a)
                 \<and> start_time \<le> detection_time a \<and> detection_time a \<le> end_time)
       (anomalies self)"

definition get_anomaly :: "InMemoryDataStorage \<Rightarrow> string \<Rightarrow> Anomaly option" where
  "get_anomaly self aid = find (\<lambda>a. anomaly_id a = aid) (anomalies self)"

section \<open>Alert service (alert_service.py)\<close>

text \<open>
  The service holds a reference to the application and uses three things of it: the name
  of the current view, \<^verbatim>\<open>app.after(0, f)\<close>, which queues \<open>f\<close> for the main loop, and
  the fact that \<^verbatim>\<open>after\<close> may raise (the application is closing). The two functions the
  service ever queues are the constructors of \<open>callback\<close>.
\<close>

datatype callback = DoConfirm string | RefreshAlertsView

record GuiApp =
  current_view :: string
  after_queue :: "callback list"
  after_raises :: bool

definition app_after :: "callback \<Rightarrow> GuiApp \<Rightarrow> GuiApp option" where
  "app_after cb a =
     (if after_raises a then None else Some (a\<lparr>after_queue := after_queue a @ [cb]\<rparr>))"

text \<open>
  The two dicts keep insertion order, so they are association lists; \<open>timers\<close> lists
  the alert ids whose \<^verbatim>\<open>auto_confirm\<close> thread has been started and still sleeps.
\<close>

record GuiAlertService =
  alerts :: "(string \<times> Alert) list"
  app :: GuiApp
  auto_confirm_timeout :: "int option"
  confirmed_times :: "(string \<times> datetime) list"
  timers :: "string list"

text \<open>
  The tail shared by \<^verbatim>\<open>send_alert\<close> and \<^verbatim>\<open>update_alert_status\<close>: if the Alerts view
  is showing, queue a refresh; an exception of \<^verbatim>\<open>after\<close> is swallowed.
\<close>

definition schedule_refresh :: "GuiAlertService \<Rightarrow> GuiAlertService" where
  "schedule_refresh self =
     (if current_view (app self) = ''Alerts'' then
        (case app_after RefreshAlertsView (app self) of
           None \<Rightarrow> self
         | Some a \<Rightarrow> self\<lparr>app := a\<rparr>)
      else self)"

text \<open>
  \<^verbatim>\<open>send_alert\<close>; \<open>uid\<close> is the fresh \<^verbatim>\<open>uuid4\<close>, \<open>now\<close> the clock,
  \<open>fmt\<close> the formatting of the score in the message. The thread is started only for a
  timeout that is neither \<^verbatim>\<open>None\<close> nor zero and is positive.
\<close>

definition send_alert ::
  "(real \<Rightarrow> string) \<Rightarrow> string \<Rightarrow> datetime \<Rightarrow> Anomaly \<Rightarrow> User \<Rightarrow> GuiAlertService
     \<Rightarrow> GuiAlertService" where
  "send_alert fmt uid now anomaly usr self =
     (let msg = ''Alert for user '' @ username usr @ '': Anomaly '' @ description anomaly
                  @ '' Score: '' @ fmt (score anomaly);
          alert = \<lparr>alert_id = uid, alert_anomaly_id = anomaly_id anomaly, time_raised = now,
                   message = msg, status = ''open''\<rparr>;
          self1 = self\<lparr>alerts := AList.update uid alert (alerts self)\<rparr>;
          self2 = (case auto_confirm_timeout self1 of
                     None \<Rightarrow> self1
                   | Some t \<Rightarrow> if t \<noteq> 0 \<and> t > 0 then self1\<lparr>timers := timers self1 @ [uid]\<rparr>
                               else self1)
      in schedule_refresh self2)"

text \<open>
  \<^verbatim>\<open>update_alert_status\<close>: for a known alert id the status is assigned as given; the
  confirmation time is recorded for \<^verbatim>\<open>'confirmed'\<close> and deleted for any other status.
\<close>

definition update_alert_status ::
  "datetime \<Rightarrow> string \<Rightarrow> string \<Rightarrow> GuiAlertService \<Rightarrow> GuiAlertService" where
  "update_alert_status now aid new_status self =
     (case map_of (alerts self) aid of
        None \<Rightarrow> self
      | Some al \<Rightarrow>
          (let self1 = self\<lparr>alerts := AList.update aid (al\<lparr>status := new_status\<rparr>) (alerts self)\<rparr>;
               self2 = (if new_status = ''confirmed''
                        then self1\<lparr>confirmed_times := AList.update aid now (confirmed_times self1)\<rparr>
                        else self1\<lparr>confirmed_times := AList.delete aid (confirmed_times self1)\<rparr>)
           in schedule_refresh self2))"

text \<open>
  \<^verbatim>\<open>auto_confirm\<close> from the moment \<^verbatim>\<open>time.sleep\<close> returns, in the timer's thread: the
  guard reads the status, and on \<^verbatim>\<open>'open'\<close> the function \<^verbatim>\<open>do_confirm\<close> is handed to
  \<^verbatim>\<open>app.after\<close>; only when \<^verbatim>\<open>after\<close> raises is \<^verbatim>\<open>do_confirm\<close> called at once.
\<close>

definition auto_confirm :: "datetime \<Rightarrow> string \<Rightarrow> GuiAlertService \<Rightarrow> GuiAlertService" where
  "auto_confirm now aid self =
     (case map_of (alerts self) aid of
        None \<Rightarrow> self
      | Some al \<Rightarrow>
          if status al = ''open'' then
            (case app_after (DoConfirm aid) (app self) of
               Some a \<Rightarrow> self\<lparr>app := a\<rparr>
             | None \<Rightarrow> update_alert_status now aid ''confirmed'' self)
          else self)"

text \<open>
  The main loop takes the oldest queued function and calls it: \<^verbatim>\<open>do_confirm\<close> is
  \<^verbatim>\<open>update_alert_status(alert_id, 'confirmed')\<close>, with no further test; the refresh
  redraws a view and leaves the service as it is.
\<close>

definition run_callback :: "datetime \<Rightarrow> GuiAlertService \<Rightarrow> GuiAlertService" where
  "run_callback now self =
     (case after_queue (app self) of
        [] \<Rightarrow> self
      | cb # rest \<Rightarrow>
          (let self1 = self\<lparr>app := (app self)\<lparr>after_queue := rest\<rparr>\<rparr>
           in case cb of
                DoConfirm aid \<Rightarrow> update_alert_status now aid ''confirmed'' self1
              | RefreshAlertsView \<Rightarrow> self1))"

definition get_alerts :: "GuiAlertService \<Rightarrow> Alert list" where
  "get_alerts self = map snd (alerts self)"

definition alert_status :: "GuiAlertService \<Rightarrow> string \<Rightarrow> string option" where
  "alert_status self aid = map_option status (map_of (alerts self) aid)"

text \<open>
  What can happen to the service, one atomic step each: a sleeping timer wakes and runs
  \<^verbatim>\<open>auto_confirm\<close>, the main loop runs the next queued function, or a caller sets a
  status. A schedule is a list of such steps, each with the clock value it sees.
\<close>

datatype event = TimerWakes string | MainLoopRuns | SetStatus string string

fun step :: "datetime \<times> event \<Rightarrow> GuiAlertService \<Rightarrow> GuiAlertService" where
  "step (now, TimerWakes aid) self =
     (if aid \<in> set (timers self)
      then auto_confirm now aid (self\<lparr>timers := remove1 aid (timers self)\<rparr>)
      else self)"
| "step (now, MainLoopRuns) self = run_callback now self"
| "step (now, SetStatus aid new_status) self = update_alert_status now aid new_status self"

fun run :: "(datetime \<times> event) list \<Rightarrow> GuiAlertService \<Rightarrow> GuiAlertService" where
  "run [] self = self"
| "run (e # es) self = run es (step e self)"

text \<open>
  The state machine of the specification, as its edges: \<open>open\<close> to \<open>confirmed\<close>,
  \<open>false_positive\<close> or \<open>acknowledged\<close>, and \<open>confirmed\<close> to \<open>acknowledged\<close>.
\<close>

definition spec_edge :: "string \<Rightarrow> string \<Rightarrow> bool" where
  "spec_edge old new =
     (old = ''open'' \<and> new \<in> set [''confirmed'', ''false_positive'', ''acknowledged'']
      \<or> old = ''confirmed'' \<and> new = ''acknowledged'')"

section \<open>Settings and pipeline controller (repositories.py, controllers.py)\<close>

text \<open>
  Of the settings repository the pipeline uses \<^verbatim>\<open>load_settings\<close>: the stored entry
  of the user (its two values), or sensitivity 0.5 and the wildcard source.
\<close>

record JsonSettingsRepository =
  settings_dict :: "string \<rightharpoonup> real option \<times> string list"

definition load_settings :: "JsonSettingsRepository \<Rightarrow> string \<Rightarrow> DetectionSettings" where
  "load_settings self uid =
     (case settings_dict self uid of
        None \<Rightarrow> \<lparr>settings_user_id = uid, sensitivity = Some (1 / 2),
                  monitored_sources = [''any'']\<rparr>
      | Some (sens, srcs) \<Rightarrow> \<lparr>settings_user_id = uid, sensitivity = sens,
                            monitored_sources = srcs\<rparr>)"

record AnomalyController =
  storage :: InMemoryDataStorage
  detector :: SimpleAnomalyDetector
  alert_service :: GuiAlertService
  settings_repo :: JsonSettingsRepository
  user :: User

text \<open>
  What one call of \<^verbatim>\<open>process_new_raw_data\<close> takes from outside: the two fresh uuids
  (anomaly, alert), the clock, the formatting of floats and the builtin \<^verbatim>\<open>float\<close>.
\<close>

record Env =
  anomaly_uuid :: string
  alert_uuid :: string
  time_now :: datetime
  float_str :: "real \<Rightarrow> string"
  float_of_str :: "string \<Rightarrow> real option"

text \<open>
  \<^verbatim>\<open>process_new_raw_data\<close>. The result is the controller's state when the call ends
  and the exception that left it, if any: what was stored before an exception stays stored.
\<close>

definition process_new_raw_data ::
  "Env \<Rightarrow> RawData \<Rightarrow> AnomalyController \<Rightarrow> AnomalyController \<times> error option" where
  "process_new_raw_data env raw self =
     (case preprocess_data (float_of_str env) raw of
        Inl e \<Rightarrow> (self, Some e)
      | Inr prepared \<Rightarrow>
          (let self1 = self\<lparr>storage := store_raw_data raw (storage self)\<rparr>;
               self2 = self1\<lparr>storage := store_prepared_data prepared (storage self1)\<rparr>;
               settings = load_settings (settings_repo self2) (user_id (user self2))
           in case detect_double (float_str env) (anomaly_uuid env) (detector self2) prepared
                     settings of
                Inl e \<Rightarrow> (self2, Some e)
              | Inr None \<Rightarrow> (self2, None)
              | Inr (Some anomaly) \<Rightarrow>
                  (let self3 = self2\<lparr>storage := store_anomaly anomaly (storage self2)\<rparr>;
                       self4 = self3\<lparr>alert_service :=
                                 send_alert (float_str env) (alert_uuid env) (time_now env)
                                   anomaly (user self3) (alert_service self3)\<rparr>
                   in (self4, None))))"

definition update_global_sensitivity :: "real \<Rightarrow> AnomalyController \<Rightarrow> AnomalyController" where
  "update_global_sensitivity x self = self\<lparr>detector := set_global_sensitivity x (detector self)\<rparr>"

definition get_anomalies_in_period ::
  "AnomalyController \<Rightarrow> datetime \<Rightarrow> datetime \<Rightarrow> string \<Rightarrow> Anomaly list" where
  "get_anomalies_in_period self start_time end_time r =
     get_anomalies (storage self) r start_time end_time"

definition acknowledge_alert :: "datetime \<Rightarrow> string \<Rightarrow> AnomalyController \<Rightarrow> AnomalyController" where
  "acknowledge_alert now aid self =
     self\<lparr>alert_service := update_alert_status now aid ''acknowledged'' (alert_service self)\<rparr>"

section \<open>Event source (data_sources.py)\<close>

text \<open>
  The outcomes of the \<^verbatim>\<open>random\<close> and \<^verbatim>\<open>uuid\<close> calls of one
  \<^verbatim>\<open>generate_one_data\<close>, in the order the code makes them.
\<close>

record Draw =
  draw_uuid :: string
  draw_source :: nat
  draw_type :: nat
  draw_uniform :: real
  draw_bool :: bool
  draw_ip3 :: nat
  draw_ip4 :: nat

text \<open>\<^verbatim>\<open>str\<close> of a non-negative integer and of a boolean.\<close>

fun str_nat :: "nat \<Rightarrow> string" where
  "str_nat n =
     (if n < 10 then [char_of (48 + n)]
      else str_nat (n div 10) @ [char_of (48 + n mod 10)])"

definition str_bool :: "bool \<Rightarrow> string" where
  "str_bool b = (if b then ''True'' else ''False'')"

text \<open>
  The listener is a callback into the rest of the program: it takes the event and the
  state \<open>'w\<close> it works on, and returns that state with the exception it raised, if any.
\<close>

record 'w SimulatedDataSource =
  listener :: "(RawData \<Rightarrow> 'w \<Rightarrow> 'w \<times> error option) option"
  running :: bool
  current_timestamp :: datetime
  generated_count :: nat

definition register_data_listener ::
  "(RawData \<Rightarrow> 'w \<Rightarrow> 'w \<times> error option) \<Rightarrow> 'w SimulatedDataSource \<Rightarrow> 'w SimulatedDataSource" where
  "register_data_listener cb self = self\<lparr>listener := Some cb\<rparr>"

text \<open>
  \<^verbatim>\<open>generate_one_data\<close>: builds the event and moves the simulated clock on by one
  hour (3600 seconds).
\<close>

definition generate_one_data ::
  "(real \<Rightarrow> string) \<Rightarrow> Draw \<Rightarrow> 'w SimulatedDataSource \<Rightarrow> RawData \<times> 'w SimulatedDataSource" where
  "generate_one_data fmt dr self =
     (let type_str = str_nat (draw_type dr);
          attrs0 = [''type'' \<mapsto> type_str];
          attrs =
            (if type_str = ''1'' then attrs0(''temperature'' \<mapsto> fmt (draw_uniform dr))
             else if type_str = ''2'' then
               attrs0(''time_of_day'' \<mapsto> fmt (draw_uniform dr),
                      ''used_device'' \<mapsto> str_bool (draw_bool dr))
             else if type_str = ''3'' then
               attrs0(''volume'' \<mapsto> fmt (draw_uniform dr),
                      ''ip'' \<mapsto> ''192.168.'' @ str_nat (draw_ip3 dr) @ ''.''
                                 @ str_nat (draw_ip4 dr))
             else attrs0)
      in (\<lparr>raw_id = draw_uuid dr, raw_timestamp = current_timestamp self,
           source = ''source_'' @ str_nat (draw_source dr), attributes = attrs\<rparr>,
          self\<lparr>current_timestamp := current_timestamp self + 3600\<rparr>))"

text \<open>
  \<^verbatim>\<open>generate_loop\<close>. \<open>draws k\<close> is the draw of the iteration that starts with
  \<^verbatim>\<open>generated_count = k\<close>. The call of the listener is not inside any \<^verbatim>\<open>try\<close>: an
  exception of the listener leaves the loop, before the counter is incremented. The
  result is the source, the listener's state and the exception that ended the loop, if
  any. The one-second sleep changes no state and is left out.
\<close>

function generate_loop ::
  "(real \<Rightarrow> string) \<Rightarrow> (nat \<Rightarrow> Draw) \<Rightarrow> 'w SimulatedDataSource \<Rightarrow> 'w
     \<Rightarrow> 'w SimulatedDataSource \<times> 'w \<times> error option" where
  "generate_loop fmt draws self w =
     (if running self \<and> generated_count self < 300 then
        (let raw = fst (generate_one_data fmt (draws (generated_count self)) self);
             self1 = snd (generate_one_data fmt (draws (generated_count self)) self)
         in case listener self1 of
              None \<Rightarrow>
                generate_loop fmt draws (self1\<lparr>generated_count := generated_count self1 + 1\<rparr>) w
            | Some cb \<Rightarrow>
                (case cb raw w of
                   (w1, Some e) \<Rightarrow> (self1, w1, Some e)
                 | (w1, None) \<Rightarrow>
                     generate_loop fmt draws
                       (self1\<lparr>generated_count := generated_count self1 + 1\<rparr>) w1))
      else (self, w, None))"
  by pat_completeness auto
termination
  by (relation "measure (\<lambda>(fmt, draws, self, w). 300 - generated_count self)")
     (auto simp: generate_one_data_def Let_def)

declare generate_loop.simps [simp del]

section \<open>The calibration search, stated on its own\<close>

text \<open>
  The description of \<^verbatim>\<open>train_model\<close> that the theorems compare the code with: the
  per-call settings, the records flagged at a sensitivity, their number, and one step
  of the search on the pair of bounds (the midpoint replaces the high bound when fewer
  than \<open>target\<close> records are flagged there, and the low bound otherwise).
\<close>

definition default_settings :: "real \<Rightarrow> DetectionSettings" where
  "default_settings s = \<lparr>settings_user_id = ''default_user'', sensitivity = Some s,
                         monitored_sources = [''any'']\<rparr>"




section \<open>Sample values\<close>

text \<open>Concrete inputs at which the theorems below are instantiated and evaluated.\<close>

text \<open>
  A parser for the witnesses: it reads plain decimal literals (optional surrounding
  whitespace and sign, digits with an optional point, an optional exponent) and gives
  their exact value, \<open>None\<close> on any other string. On the attribute strings of the sample
  events (\<^verbatim>\<open>'0'\<close>, \<^verbatim>\<open>'180'\<close>, \<^verbatim>\<open>'noon'\<close>) that is what \<^verbatim>\<open>float\<close> does.
\<close>

definition is_space :: "char \<Rightarrow> bool" where
  "is_space c = (c \<in> set [CHR '' '', CHR 0x09, CHR 0x0A, CHR 0x0B, CHR 0x0C, CHR 0x0D])"

definition strip :: "string \<Rightarrow> string" where
  "strip s = rev (dropWhile is_space (rev (dropWhile is_space s)))"

definition is_digit :: "char \<Rightarrow> bool" where
  "is_digit c = (c \<in> set ''0123456789'')"

text \<open>The value of a digit is its position in the string of the ten digits.\<close>

definition digit_val :: "char \<Rightarrow> nat" where
  "digit_val c = length (takeWhile (\<lambda>d. d \<noteq> c) ''0123456789'')"

definition digits_val :: "string \<Rightarrow> nat" where
  "digits_val ds = foldl (\<lambda>n c. 10 * n + digit_val c) 0 ds"

definition all_digits :: "string \<Rightarrow> bool" where
  "all_digits ds = list_all is_digit ds"

text \<open>Splits off an optional leading sign; the result is the sign (-1 or 1) and the rest.\<close>

fun take_sign :: "string \<Rightarrow> int \<times> string" where
  "take_sign [] = (1, [])"
| "take_sign (c # cs) =
     (if c = CHR ''-'' then (-1, cs) else if c = CHR ''+'' then (1, cs) else (1, c # cs))"

definition parse_exponent :: "string \<Rightarrow> int option" where
  "parse_exponent s =
     (let (sg, ds) = take_sign s
      in if ds \<noteq> [] \<and> all_digits ds then Some (sg * int (digits_val ds)) else None)"

definition parse_mantissa :: "string \<Rightarrow> real option" where
  "parse_mantissa s =
     (let ip = takeWhile (\<lambda>c. c \<noteq> CHR ''.'') s;
          rest = dropWhile (\<lambda>c. c \<noteq> CHR ''.'') s;
          fp = (case rest of [] \<Rightarrow> [] | _ # f \<Rightarrow> f)
      in if all_digits ip \<and> all_digits fp \<and> (ip \<noteq> [] \<or> fp \<noteq> [])
         then Some (real (digits_val ip) + real (digits_val fp) / 10 ^ length fp)
         else None)"

definition is_exp_mark :: "char \<Rightarrow> bool" where
  "is_exp_mark c = (c = CHR ''e'' \<or> c = CHR ''E'')"

definition decimal_float :: "string \<Rightarrow> real option" where
  "decimal_float str =
     (let (sg, body) = take_sign (strip str);
          m = takeWhile (\<lambda>c. \<not> is_exp_mark c) body;
          rest = dropWhile (\<lambda>c. \<not> is_exp_mark c) body
      in case parse_mantissa m of
           None \<Rightarrow> None
         | Some mv \<Rightarrow>
             (case rest of
                [] \<Rightarrow> Some (real_of_int sg * mv)
              | _ # ex \<Rightarrow>
                  (case parse_exponent ex of
                     None \<Rightarrow> None
                   | Some e \<Rightarrow>
                       Some (if 0 \<le> e then real_of_int sg * mv * 10 ^ nat e
                             else real_of_int sg * mv / 10 ^ nat (- e)))))"

definition sample_fmt :: "real \<Rightarrow> string" where
  "sample_fmt x = ''0''"

definition sample_detector :: SimpleAnomalyDetector where
  "sample_detector = \<lparr>global_sensitivity = 1 / 2\<rparr>"

definition global_settings :: DetectionSettings where
  "global_settings = \<lparr>settings_user_id = ''u1'', sensitivity = None,
                       monitored_sources = [''any'']\<rparr>"

definition hot_reading :: PreparedData where
  "hot_reading = \<lparr>prep_id = ''e1'', prep_timestamp = 5, data_type = ''sensor'',
                  features = [180]\<rparr>"

definition busy_link :: PreparedData where
  "busy_link = \<lparr>prep_id = ''e2'', prep_timestamp = 6, data_type = ''traffic'',
                features = [500]\<rparr>"

definition early_payment :: PreparedData where
  "early_payment = \<lparr>prep_id = ''e3'', prep_timestamp = 7, data_type = ''transaction'',
                    features = [2]\<rparr>"


definition sample_user :: User where
  "sample_user = \<lparr>user_id = ''u1'', username = ''admin'', role = ''equipment'',
                  email = ''admin@example.com''\<rparr>"

definition sample_anomaly :: Anomaly where
  "sample_anomaly = \<lparr>anomaly_id = ''n1'', data_id = ''e1'', detection_time = 0, score = 200,
                     description = ''sensor: Temperature 0 exceeds threshold 0'',
                     severity = ''high''\<rparr>"

definition empty_service :: GuiAlertService where
  "empty_service = \<lparr>alerts = [], app = \<lparr>current_view = ''Dashboard'', after_queue = [],
                                        after_raises = False\<rparr>,
                    auto_confirm_timeout = Some 120, confirmed_times = [], timers = []\<rparr>"

text \<open>The service after one alert \<open>a1\<close> has been raised: it is open and its timer sleeps.\<close>

definition sample_service :: GuiAlertService where
  "sample_service = send_alert sample_fmt ''a1'' 0 sample_anomaly sample_user empty_service"

definition sample_env :: Env where
  "sample_env = \<lparr>anomaly_uuid = ''n1'', alert_uuid = ''a1'', time_now = 0,
                 float_str = sample_fmt, float_of_str = decimal_float\<rparr>"

definition sample_controller :: AnomalyController where
  "sample_controller = \<lparr>storage = \<lparr>raw_data = [], prepared_data = [], anomalies = []\<rparr>,
                        detector = sample_detector, alert_service = empty_service,
                        settings_repo = \<lparr>settings_dict = Map.empty\<rparr>, user = sample_user\<rparr>"

definition unknown_event :: RawData where
  "unknown_event = \<lparr>raw_id = ''e9'', raw_timestamp = 0, source = ''source_1'',
                    attributes = [''type'' \<mapsto> ''9'']\<rparr>"

definition hot_event :: RawData where
  "hot_event = \<lparr>raw_id = ''e1'', raw_timestamp = 5, source = ''source_1'',
                attributes = [''type'' \<mapsto> ''1'', ''temperature'' \<mapsto> ''180'']\<rparr>"

definition bare_event :: RawData where
  "bare_event = \<lparr>raw_id = ''e1'', raw_timestamp = 0, source = ''source_1'',
                 attributes = [''type'' \<mapsto> ''1'']\<rparr>"

definition noon_event :: RawData where
  "noon_event = \<lparr>raw_id = ''e2'', raw_timestamp = 0, source = ''source_1'',
                 attributes = [''type'' \<mapsto> ''2'', ''time_of_day'' \<mapsto> ''noon'']\<rparr>"

definition sample_draws :: "nat \<Rightarrow> Draw" where
  "sample_draws k = \<lparr>draw_uuid = ''e'' @ str_nat k, draw_source = 1, draw_type = 1,
                     draw_uniform = 0, draw_bool = False, draw_ip3 = 0, draw_ip4 = 0\<rparr>"

definition failing_listener :: "RawData \<Rightarrow> unit \<Rightarrow> unit \<times> error option" where
  "failing_listener raw w = (w, Some ValueError)"

definition failing_source :: "unit SimulatedDataSource" where
  "failing_source = \<lparr>listener = Some failing_listener, running = True,
                     current_timestamp = 0, generated_count = 0\<rparr>"

definition quiet_source :: "unit SimulatedDataSource" where
  "quiet_source = \<lparr>listener = None, running = True, current_timestamp = 0,
                   generated_count = 298\<rparr>"

definition third_call_fails :: "RawData \<Rightarrow> nat \<Rightarrow> nat \<times> error option" where
  "third_call_fails raw n = (if n = 2 then (n, Some ValueError) else (n + 1, None))"

definition counting_source :: "nat SimulatedDataSource" where
  "counting_source = \<lparr>listener = Some third_call_fails, running = True,
                      current_timestamp = 0, generated_count = 0\<rparr>"

text \<open>
  Inputs whose sensitivities and features are doubles: 0.5 and 0.875 are exact, the double
  nearest to 0.3 is \<open>5404319552844595 / 2\<^sup>5\<^sup>4\<close>, and \<open>6333186975989761 / 2\<^sup>4\<^sup>6\<close> is the
  double Python prints as \<^verbatim>\<open>90.00000000000001\<close>.
\<close>

definition tuned_detector :: SimpleAnomalyDetector where
  "tuned_detector = \<lparr>global_sensitivity = 7 / 8\<rparr>"

definition half_settings :: DetectionSettings where
  "half_settings = \<lparr>settings_user_id = ''u1'', sensitivity = Some (1 / 2),
                     monitored_sources = [''any'']\<rparr>"

definition three_tenths_settings :: DetectionSettings where
  "three_tenths_settings =
     \<lparr>settings_user_id = ''u1'', sensitivity = Some (5404319552844595 / 18014398509481984),
      monitored_sources = [''any'']\<rparr>"

definition reversed_settings :: DetectionSettings where
  "reversed_settings = \<lparr>settings_user_id = ''u1'', sensitivity = Some (- 1),
                         monitored_sources = [''any'']\<rparr>"

definition edge_reading :: PreparedData where
  "edge_reading = \<lparr>prep_id = ''e4'', prep_timestamp = 8, data_type = ''sensor'',
                   features = [6333186975989761 / 70368744177664]\<rparr>"

definition boundary_payment :: PreparedData where
  "boundary_payment = \<lparr>prep_id = ''e5'', prep_timestamp = 9, data_type = ''transaction'',
                       features = [7]\<rparr>"

definition night_payment :: PreparedData where
  "night_payment = \<lparr>prep_id = ''e6'', prep_timestamp = 10, data_type = ''transaction'',
                    features = [- 10]\<rparr>"

text \<open>The anomaly \<open>detect_double\<close> returns for \<open>hot_reading\<close> at sensitivity 0.5.\<close>

definition hot_anomaly_double :: Anomaly where
  "hot_anomaly_double =
     \<lparr>anomaly_id = ''n1'', data_id = ''e1'', detection_time = 5,
      score = 7036874417766399 / 35184372088832,
      description = ''sensor: Temperature 0 exceeds threshold 0'', severity = ''high''\<rparr>"

text \<open>A store that holds only that anomaly.\<close>

definition hot_store :: InMemoryDataStorage where
  "hot_store = \<lparr>raw_data = [], prepared_data = [], anomalies = [hot_anomaly_double]\<rparr>"

section \<open>Properties of the rounding\<close>

text \<open>
  Rounding to the nearest integer is monotone and leaves integers alone; from that,
  \<open>round_double\<close> is monotone, odd, idempotent, and computed by \<open>round_double_eval\<close>
  once the binade of the argument is known.
\<close>

lemma rne_bounds: "\<lfloor>y\<rfloor> \<le> rne y \<and> rne y \<le> \<lfloor>y\<rfloor> + 1"
  by (simp add: rne_def Let_def)

lemma rne_of_int [simp]: "rne (of_int n) = n"
  by (simp add: rne_def Let_def)

lemma rne_numeral [simp]: "rne (numeral n) = numeral n"
  using rne_of_int [of "numeral n"] by simp

lemma rne_mono: "y \<le> z \<Longrightarrow> rne y \<le> rne z"
proof -
  assume yz: "y \<le> z"
  then have fl: "\<lfloor>y\<rfloor> \<le> \<lfloor>z\<rfloor>" by (rule floor_mono)
  show ?thesis
  proof (cases "\<lfloor>y\<rfloor> = \<lfloor>z\<rfloor>")
    case True
    with yz show ?thesis by (auto simp: rne_def Let_def)
  next
    case False
    with fl have "\<lfloor>y\<rfloor> + 1 \<le> \<lfloor>z\<rfloor>" by simp
    with rne_bounds [of y] rne_bounds [of z] show ?thesis by linarith
  qed
qed

lemma two_powi_pos [simp]: "0 < (2::real) powi k"
  by (simp add: zero_less_power_int)

lemma two_powi_Suc: "(2::real) powi (k + 1) = 2 * 2 powi k"
  by (simp add: power_int_add_1')

lemma two_powi_mono: "k \<le> l \<Longrightarrow> (2::real) powi k \<le> 2 powi l"
  by (rule power_int_increasing) simp_all

lemma floor_log2_iff:
  assumes "0 < a"
  shows "\<lfloor>log 2 a\<rfloor> = k \<longleftrightarrow> 2 powi k \<le> a \<and> a < 2 powi (k + 1)"
  using floor_log_eq_powr_iff [of a 2 k] assms
  by (simp add: powr_real_of_int' del: of_int_add)

lemma binade_upper:
  assumes "x \<noteq> 0"
  shows "\<bar>x\<bar> < 2 powi (binade x + 1)"
proof -
  have a: "0 < \<bar>x\<bar>" using assms by simp
  from floor_log2_iff [OF a, of "\<lfloor>log 2 \<bar>x\<bar>\<rfloor>"]
  have "\<bar>x\<bar> < 2 powi (\<lfloor>log 2 \<bar>x\<bar>\<rfloor> + 1)" by simp
  also have "\<dots> \<le> 2 powi (binade x + 1)"
    by (rule two_powi_mono) (simp add: binade_def)
  finally show ?thesis .
qed

lemma binade_lower:
  assumes "x \<noteq> 0" and "- 1022 < binade x"
  shows "2 powi binade x \<le> \<bar>x\<bar>"
proof -
  have a: "0 < \<bar>x\<bar>" using assms by simp
  from assms(2) have b: "binade x = \<lfloor>log 2 \<bar>x\<bar>\<rfloor>" by (simp add: binade_def max_def split: if_splits)
  from floor_log2_iff [OF a, of "\<lfloor>log 2 \<bar>x\<bar>\<rfloor>"] b show ?thesis by simp
qed

lemma binade_eq:
  assumes "2 powi k \<le> \<bar>x\<bar>" and "\<bar>x\<bar> < 2 powi (k + 1)" and "- 1022 \<le> k"
  shows "binade x = k"
proof -
  have a: "0 < \<bar>x\<bar>" using assms(1) two_powi_pos [of k] by linarith
  from floor_log2_iff [OF a, of k] assms have "\<lfloor>log 2 \<bar>x\<bar>\<rfloor> = k" by simp
  with assms(3) show ?thesis by (simp add: binade_def)
qed

lemma binade_subnormal:
  assumes "x \<noteq> 0" and "\<bar>x\<bar> < 2 powi (- 1022)"
  shows "binade x = - 1022"
proof (rule ccontr)
  assume "binade x \<noteq> - 1022"
  then have b: "- 1022 < binade x" by (simp add: binade_def max_def split: if_splits)
  from binade_lower [OF assms(1) b] two_powi_mono [of "- 1022" "binade x"] b assms(2)
  show False by simp
qed

lemma binade_mono:
  assumes "x \<noteq> 0" and "\<bar>x\<bar> \<le> \<bar>y\<bar>"
  shows "binade x \<le> binade y"
proof -
  have "0 < \<bar>x\<bar>" using assms by simp
  then have "log 2 \<bar>x\<bar> \<le> log 2 \<bar>y\<bar>" using assms(2) by simp
  then have "\<lfloor>log 2 \<bar>x\<bar>\<rfloor> \<le> \<lfloor>log 2 \<bar>y\<bar>\<rfloor>" by (rule floor_mono)
  then show ?thesis by (simp add: binade_def)
qed

lemma binade_minus [simp]: "binade (- x) = binade x"
  by (simp add: binade_def)

lemma round_double_minus: "round_double (- x) = - round_double x"
  by (simp add: round_double_def sgn_minus)

lemma round_double_pos:
  assumes "0 < x"
  shows "round_double x = of_int (rne (x / 2 powi (binade x - 52))) * 2 powi (binade x - 52)"
  using assms by (simp add: round_double_def)

lemma round_double_nonneg:
  assumes "0 \<le> x"
  shows "0 \<le> round_double x"
proof (cases "x = 0")
  case True
  then show ?thesis by (simp add: round_double_def)
next
  case False
  with assms have p: "0 < x" by simp
  have "0 \<le> x / 2 powi (binade x - 52)" using p by simp
  then have "rne 0 \<le> rne (x / 2 powi (binade x - 52))" by (rule rne_mono)
  then have "0 \<le> rne (x / 2 powi (binade x - 52))" using rne_of_int [of 0] by simp
  then show ?thesis using p by (simp add: round_double_pos)
qed

lemma round_double_eval:
  assumes "0 < x" and "2 powi k \<le> x" and "x < 2 powi (k + 1)" and "- 1022 \<le> k"
  shows "round_double x = of_int (rne (x / 2 powi (k - 52))) * 2 powi (k - 52)"
proof -
  have "binade x = k" using binade_eq [of k x] assms by simp
  with assms(1) show ?thesis by (simp add: round_double_pos)
qed

lemma scaled_bounds:
  assumes "0 < x"
  shows "x / 2 powi (binade x - 52) < 2 ^ 53"
    and "- 1022 < binade x \<Longrightarrow> 2 ^ 52 \<le> x / 2 powi (binade x - 52)"
proof -
  have q: "(2::real) powi (binade x - 52) = 2 powi binade x / 2 ^ 52"
    by (simp add: power_int_diff)
  have u: "x < 2 * 2 powi binade x"
    using binade_upper [of x] assms by (simp add: two_powi_Suc)
  show "x / 2 powi (binade x - 52) < 2 ^ 53"
    using u by (simp add: q field_simps)
  assume "- 1022 < binade x"
  then have "2 powi binade x \<le> x" using binade_lower [of x] assms by simp
  then show "2 ^ 52 \<le> x / 2 powi (binade x - 52)"
    by (simp add: q field_simps)
qed

lemma round_double_upper:
  assumes "0 < x"
  shows "round_double x \<le> 2 powi (binade x + 1)"
proof -
  have "rne (x / 2 powi (binade x - 52)) \<le> rne (of_int (2 ^ 53))"
    using scaled_bounds(1) [OF assms] by (intro rne_mono) simp
  then have "rne (x / 2 powi (binade x - 52)) \<le> 2 ^ 53" by (simp only: rne_of_int)
  then have "(of_int (rne (x / 2 powi (binade x - 52))) :: real) \<le> 2 ^ 53"
    by (metis of_int_le_iff of_int_numeral of_int_power)
  then have "of_int (rne (x / 2 powi (binade x - 52))) * 2 powi (binade x - 52)
             \<le> (2 ^ 53 * 2 powi (binade x - 52) :: real)"
    by (intro mult_right_mono) simp_all
  also have "\<dots> = (2 powi (binade x + 1) :: real)"
    by (simp add: power_int_diff two_powi_Suc)
  finally show ?thesis using assms by (simp add: round_double_pos)
qed

lemma round_double_lower:
  assumes "0 < x" and "- 1022 < binade x"
  shows "2 powi binade x \<le> round_double x"
proof -
  have "rne (of_int (2 ^ 52)) \<le> rne (x / 2 powi (binade x - 52))"
    using scaled_bounds(2) [OF assms] by (intro rne_mono) simp
  then have "2 ^ 52 \<le> rne (x / 2 powi (binade x - 52))" by (simp only: rne_of_int)
  then have h: "(2 ^ 52 :: real) \<le> of_int (rne (x / 2 powi (binade x - 52)))"
    by (metis of_int_le_iff of_int_numeral of_int_power)
  have "(2 powi binade x :: real) = 2 ^ 52 * 2 powi (binade x - 52)"
    by (simp add: power_int_diff)
  also have "\<dots> \<le> of_int (rne (x / 2 powi (binade x - 52))) * 2 powi (binade x - 52)"
    using h by (intro mult_right_mono) simp_all
  also have "\<dots> = round_double x"
    using assms(1) by (simp add: round_double_pos)
  finally show ?thesis .
qed

lemma round_double_mono_pos:
  assumes "0 < x" and "x \<le> y"
  shows "round_double x \<le> round_double y"
proof -
  have y: "0 < y" using assms by simp
  have b: "binade x \<le> binade y" using binade_mono [of x y] assms by simp
  show ?thesis
  proof (cases "binade x = binade y")
    case True
    have "x / 2 powi (binade y - 52) \<le> y / 2 powi (binade y - 52)"
      using assms(2) by (simp add: divide_right_mono)
    then have "rne (x / 2 powi (binade y - 52)) \<le> rne (y / 2 powi (binade y - 52))"
      by (rule rne_mono)
    then have "(of_int (rne (x / 2 powi (binade y - 52))) :: real)
               \<le> of_int (rne (y / 2 powi (binade y - 52)))" by simp
    then have "(of_int (rne (x / 2 powi (binade y - 52))) * 2 powi (binade y - 52) :: real)
               \<le> of_int (rne (y / 2 powi (binade y - 52))) * 2 powi (binade y - 52)"
      by (intro mult_right_mono) simp_all
    then show ?thesis using assms(1) y True by (simp add: round_double_pos)
  next
    case False
    with b have lt: "binade x + 1 \<le> binade y" by simp
    have ny: "- 1022 < binade y"
      using lt by (simp add: binade_def)
    have "round_double x \<le> 2 powi (binade x + 1)" by (rule round_double_upper [OF assms(1)])
    also have "\<dots> \<le> 2 powi binade y" by (rule two_powi_mono [OF lt])
    also have "\<dots> \<le> round_double y" by (rule round_double_lower [OF y ny])
    finally show ?thesis .
  qed
qed

lemma round_double_mono:
  assumes "x \<le> y"
  shows "round_double x \<le> round_double y"
proof -
  consider "0 < x" | "x \<le> 0" "0 \<le> y" | "y < 0" by linarith
  then show ?thesis
  proof cases
    case 1
    then show ?thesis using round_double_mono_pos assms by simp
  next
    case 2
    have "round_double x \<le> 0"
      using round_double_nonneg [of "- x"] 2(1) by (simp add: round_double_minus)
    with round_double_nonneg [OF 2(2)] show ?thesis by simp
  next
    case 3
    then have "round_double (- y) \<le> round_double (- x)"
      using assms by (intro round_double_mono_pos) simp_all
    then show ?thesis by (simp add: round_double_minus)
  qed
qed

lemma round_double_power_lower:
  assumes "2 powi k \<le> x" and "- 1022 \<le> k"
  shows "2 powi k \<le> round_double x"
proof -
  have p: "0 < (2::real) powi k" by simp
  have "round_double (2 powi k) = 2 powi k"
    using round_double_eval [of "2 powi k" k] assms(2)
    by (simp add: two_powi_Suc power_int_diff)
  with round_double_mono [OF assms(1)] show ?thesis by simp
qed

lemma round_double_fix:
  assumes "0 < x" and "x = of_int n * 2 powi (binade x - 52)"
  shows "round_double x = x"
proof -
  have "x / 2 powi (binade x - 52) = of_int n"
    using assms(2) by (metis nonzero_mult_div_cancel_right two_powi_pos less_irrefl)
  then show ?thesis
    using assms by (simp add: round_double_pos)
qed

lemma round_double_two_powi:
  assumes "- 1022 \<le> k"
  shows "round_double (2 powi k) = 2 powi k"
  using round_double_eval [of "2 powi k" k] assms
  by (simp add: two_powi_Suc power_int_diff)

lemma round_double_idem_pos:
  assumes "0 < x"
  shows "round_double (round_double x) = round_double x"
proof -
  define e where "e = binade x"
  define n where "n = rne (x / 2 powi (e - 52))"
  define r where "r = round_double x"
  have r: "r = of_int n * 2 powi (e - 52)"
    using assms by (simp add: r_def n_def e_def round_double_pos)
  have e: "- 1022 \<le> e" by (simp add: e_def binade_def)
  have "rne (of_int 0) \<le> rne (x / 2 powi (e - 52))"
    using assms by (intro rne_mono) simp
  then have n0: "0 \<le> n" by (simp only: rne_of_int n_def)
  have "rne (x / 2 powi (e - 52)) \<le> rne (of_int (2 ^ 53))"
    using scaled_bounds(1) [OF assms] unfolding e_def by (intro rne_mono) simp
  then have n53: "n \<le> 2 ^ 53" by (simp only: rne_of_int n_def)
  have q: "(2::real) powi (e - 52) = 2 powi e / 2 ^ 52" by (simp add: power_int_diff)
  consider "n = 0" | "n = 2 ^ 53" | "0 < n" "n < 2 ^ 53" using n0 n53 by linarith
  then have "round_double r = r"
  proof cases
    case 1
    then show ?thesis by (simp add: r round_double_def)
  next
    case 2
    then have "r = 2 powi (e + 1)" by (simp add: r q two_powi_Suc)
    then show ?thesis using round_double_two_powi [of "e + 1"] e by simp
  next
    case 3
    have rpos: "0 < r" using 3(1) by (simp add: r)
    have up: "r < 2 powi (e + 1)"
    proof -
      have "(of_int n :: real) < 2 ^ 53" using 3(2)
        by (metis of_int_less_iff of_int_numeral of_int_power)
      then have "of_int n * 2 powi (e - 52) < (2 ^ 53 * 2 powi (e - 52) :: real)"
        by (intro mult_strict_right_mono) simp_all
      also have "\<dots> = 2 powi (e + 1)" by (simp add: q two_powi_Suc)
      finally show ?thesis by (simp add: r)
    qed
    have "binade r = e"
    proof (cases "2 powi e \<le> r")
      case True
      then show ?thesis using binade_eq [of e r] up e rpos by simp
    next
      case False
      then have lt: "r < 2 powi e" by simp
      have "e = - 1022"
      proof (rule ccontr)
        assume "e \<noteq> - 1022"
        with e have "- 1022 < binade x" by (simp add: e_def)
        from round_double_lower [OF assms this] lt show False by (simp add: r_def e_def)
      qed
      with lt rpos show ?thesis using binade_subnormal [of r] by simp
    qed
    with r rpos show ?thesis using round_double_fix [of r n] by simp
  qed
  then show ?thesis by (simp add: r_def)
qed

lemma round_double_idem: "round_double (round_double x) = round_double x"
proof -
  consider "0 < x" | "x = 0" | "x < 0" by linarith
  then show ?thesis
  proof cases
    case 1
    then show ?thesis by (rule round_double_idem_pos)
  next
    case 2
    then show ?thesis by (simp add: round_double_def)
  next
    case 3
    then have "round_double (round_double (- x)) = round_double (- x)"
      by (intro round_double_idem_pos) simp
    then show ?thesis by (simp add: round_double_minus)
  qed
qed
lemmas rne_eval = rne_def Let_def power_int_minus

lemma round_double_11_10: "round_double (11 / 10) = 4953959590107546 / 2 ^ 52"
  using round_double_eval [of "11 / 10" 0] by (simp add: rne_eval)

lemma sensor_threshold_half:
  "round_double (round_double (round_double (11 / 10) - 1 / 2) * 150)
   = 6333186975989761 / 70368744177664"
proof -
  have a: "round_double (round_double (11 / 10) - 1 / 2) = 5404319552844596 / 2 ^ 53"
    using round_double_eval [of "4953959590107546 / 2 ^ 52 - 1 / 2" "- 1"]
    by (simp add: round_double_11_10 rne_eval)
  show ?thesis
    using round_double_eval [of "5404319552844596 / 2 ^ 53 * 150" 6]
    by (simp add: a rne_eval)
qed

lemma traffic_threshold_seven_eighths:
  "round_double (round_double (round_double (11 / 10) - 7 / 8) * 1000)
   = 7916483719987203 / 35184372088832"
proof -
  have a: "round_double (round_double (11 / 10) - 7 / 8) = 506654958079181 / 2251799813685248"
    using round_double_eval [of "4953959590107546 / 2 ^ 52 - 7 / 8" "- 3"]
    by (simp add: round_double_11_10 rne_eval)
  show ?thesis
    using round_double_eval [of "506654958079181 / 2251799813685248 * 1000" 7]
    by (simp add: a rne_eval)
qed

lemma hot_reading_score:
  "round_double (round_double (180 / (6333186975989761 / 70368744177664)) * 100)
   = 7036874417766399 / 35184372088832"
proof -
  have a: "round_double (180 / (6333186975989761 / 70368744177664))
           = 9007199254740991 / 4503599627370496"
    using round_double_eval [of "180 / (6333186975989761 / 70368744177664)" 0]
    by (simp add: rne_eval)
  have b: "round_double (9007199254740991 / 4503599627370496 * 100)
           = 7036874417766399 / 35184372088832"
    using round_double_eval [of "9007199254740991 / 4503599627370496 * 100" 7]
    by (simp add: rne_eval)
  show ?thesis by (simp only: a b)
qed
lemma round_double_consts:
  "round_double 0 = 0" "round_double (1 / 2) = 1 / 2" "round_double 1 = 1"
  "round_double 2 = 2" "round_double (11 / 2) = 11 / 2" "round_double 8 = 8"
  "round_double 10 = 10" "round_double 11 = 11" "round_double (- 1) = - 1"
  using round_double_eval [of "1 / 2" "- 1"] round_double_eval [of 1 0]
    round_double_eval [of 2 1] round_double_eval [of "11 / 2" 2] round_double_eval [of 8 3]
    round_double_eval [of 10 3] round_double_eval [of 11 3] round_double_minus [of 1]
  by (simp_all add: rne_eval round_double_def)

text \<open>
  For a sensitivity between 0 and 1 the two thresholds are positive, also after the
  three roundings.
\<close>

lemma thresholds_positive:
  assumes "0 \<le> s" and "s \<le> 1"
  shows "8 \<le> round_double (round_double (round_double (11 / 10) - s) * 150)"
    and "32 \<le> round_double (round_double (round_double (11 / 10) - s) * 1000)"
proof -
  have "(2::real) powi (- 4) \<le> round_double (11 / 10) - s"
    using assms(2) by (simp add: round_double_11_10 power_int_minus)
  then have "(2::real) powi (- 4) \<le> round_double (round_double (11 / 10) - s)"
    by (rule round_double_power_lower) simp
  then have d: "1 / 16 \<le> round_double (round_double (11 / 10) - s)"
    by (simp add: power_int_minus)
  have "(2::real) powi 3 \<le> round_double (round_double (11 / 10) - s) * 150"
    using d by simp
  then have "(2::real) powi 3 \<le> round_double (round_double (round_double (11 / 10) - s) * 150)"
    by (rule round_double_power_lower) simp
  then show "8 \<le> round_double (round_double (round_double (11 / 10) - s) * 150)"
    by simp
  have "(2::real) powi 5 \<le> round_double (round_double (11 / 10) - s) * 1000"
    using d by simp
  then have "(2::real) powi 5 \<le> round_double (round_double (round_double (11 / 10) - s) * 1000)"
    by (rule round_double_power_lower) simp
  then show "32 \<le> round_double (round_double (round_double (11 / 10) - s) * 1000)"
    by simp
qed

text \<open>
  For a sensitivity between 0 and 1 the upper bound of the transaction band is positive
  and not below the lower bound, also after the roundings.
\<close>

lemma transaction_bounds:
  assumes "0 \<le> s" and "s \<le> 1"
  shows "round_double (s * 8)
         \<le> round_double (round_double (s * 22) + round_double (1 - round_double (s * 2)))"
    and "0 < round_double (round_double (s * 22) + round_double (1 - round_double (s * 2)))"
proof -
  define a where "a = round_double (s * 22)"
  define c where "c = round_double (s * 2)"
  define b where "b = round_double (1 - c)"
  define u where "u = round_double (a + b)"
  define l where "l = round_double (s * 8)"
  have la: "l \<le> a" unfolding l_def a_def using assms(1) by (intro round_double_mono) simp
  have ra: "round_double a = a" by (simp add: a_def round_double_idem)
  have "l \<le> u \<and> 0 < u"
  proof (cases "s \<le> 1 / 2")
    case True
    have "c \<le> round_double 1" unfolding c_def using True by (intro round_double_mono) simp
    then have "0 \<le> 1 - c" by (simp add: round_double_consts)
    then have b0: "0 \<le> b" unfolding b_def by (rule round_double_nonneg)
    have "round_double a \<le> u" unfolding u_def using b0 by (intro round_double_mono) simp
    then have lu: "l \<le> u" using la ra by simp
    have "0 < u"
    proof (cases "s \<le> 1 / 4")
      case True
      have "c \<le> round_double (1 / 2)" unfolding c_def using True
        by (intro round_double_mono) simp
      then have "1 / 2 \<le> 1 - c" by (simp add: round_double_consts)
      then have "round_double (1 / 2) \<le> b" unfolding b_def by (rule round_double_mono)
      then have hb: "1 / 2 \<le> b" by (simp add: round_double_consts)
      have "0 \<le> a" unfolding a_def using assms(1) by (intro round_double_nonneg) simp
      then have "1 / 2 \<le> a + b" using hb by simp
      then have "round_double (1 / 2) \<le> u" unfolding u_def by (rule round_double_mono)
      then show ?thesis by (simp add: round_double_consts)
    next
      case False
      then have "round_double (11 / 2) \<le> a" unfolding a_def
        by (intro round_double_mono) simp
      then have "11 / 2 \<le> a + b" using b0 by (simp add: round_double_consts)
      then have "round_double (11 / 2) \<le> u" unfolding u_def by (rule round_double_mono)
      then show ?thesis by (simp add: round_double_consts)
    qed
    with lu show ?thesis by simp
  next
    case False
    have "c \<le> round_double 2" unfolding c_def using assms(2) by (intro round_double_mono) simp
    then have "- 1 \<le> 1 - c" by (simp add: round_double_consts)
    then have "round_double (- 1) \<le> b" unfolding b_def by (rule round_double_mono)
    then have hb: "- 1 \<le> b" by (simp add: round_double_consts)
    have "round_double 11 \<le> a" unfolding a_def using False by (intro round_double_mono) simp
    then have "10 \<le> a + b" using hb by (simp add: round_double_consts)
    then have "round_double 10 \<le> u" unfolding u_def by (rule round_double_mono)
    then have hu: "10 \<le> u" by (simp add: round_double_consts)
    have "l \<le> round_double 8" unfolding l_def using assms(2) by (intro round_double_mono) simp
    then show ?thesis using hu by (simp add: round_double_consts)
  qed
  then show "round_double (s * 8)
         \<le> round_double (round_double (s * 22) + round_double (1 - round_double (s * 2)))"
    and "0 < round_double (round_double (s * 22) + round_double (1 - round_double (s * 2)))"
    by (simp_all add: l_def u_def a_def b_def c_def)
qed
section \<open>Detection rules\<close>

lemma effective_sensitivity_cases:
  assumes "sensitivity st = Some s \<or> sensitivity st = None \<and> global_sensitivity self = s"
  shows "effective_sensitivity self st = s"
  using assms by (auto simp: effective_sensitivity_def)

text \<open>
  C1. For a sensitivity \<open>s\<close> between 0 and 1, taken from the settings or, when they
  carry none, from the detector, and a prepared record of category sensor (threshold
  \<open>(1.1 - s) * 150\<close>) or traffic (threshold \<open>(1.1 - s) * 1000\<close>) with feature value \<open>v\<close>,
  all arithmetic in double precision: \<open>detect\<close> returns an anomaly if and only if \<open>v\<close>
  exceeds the threshold, and nothing otherwise (it never raises); the anomaly's score is
  \<open>v / threshold * 100\<close>, its severity is high exactly when the score exceeds 150 and medium
  otherwise. The value of the score is stated for \<open>v\<close> up to \<open>2\<^sup>1\<^sup>0\<^sup>0\<^sup>0\<close>, where quotient and
  product stay within the doubles.
\<close>

theorem detect_threshold_rule:
  assumes "0 \<le> s" and "s \<le> 1"
      and "sensitivity st = Some s \<or> sensitivity st = None \<and> global_sensitivity self = s"
      and "features d = v # rest"
      and "data_type d = ''sensor''
             \<and> threshold = round_double (round_double (round_double (11 / 10) - s) * 150)
           \<or> data_type d = ''traffic''
             \<and> threshold = round_double (round_double (round_double (11 / 10) - s) * 1000)"
  shows "((\<exists>a. detect_double fmt uid self d st = Inr (Some a)) \<longleftrightarrow> v > threshold)
       \<and> (\<not> v > threshold \<longrightarrow> detect_double fmt uid self d st = Inr None)
       \<and> (\<forall>a. detect_double fmt uid self d st = Inr (Some a) \<longrightarrow>
              (v \<le> 2 ^ 1000 \<longrightarrow>
                 score a = round_double (round_double (v / threshold) * 100))
            \<and> (severity a = ''high'' \<longleftrightarrow> score a > 150)
            \<and> (severity a = ''medium'' \<longleftrightarrow> \<not> score a > 150))"
proof -
  have e: "effective_sensitivity self st = s"
    by (rule effective_sensitivity_cases [OF assms(3)])
  have pos: "round_double (round_double (round_double (11 / 10) - s) * 150) \<noteq> 0"
    "round_double (round_double (round_double (11 / 10) - s) * 1000) \<noteq> 0"
    using thresholds_positive [OF assms(1,2)] by simp_all
  from assms(5) show ?thesis
  proof
    assume "data_type d = ''sensor''
             \<and> threshold = round_double (round_double (round_double (11 / 10) - s) * 150)"
    then show ?thesis using pos e assms(4)
      by (auto simp: detect_double_def detect_rnd_def Let_def)
  next
    assume "data_type d = ''traffic''
             \<and> threshold = round_double (round_double (round_double (11 / 10) - s) * 1000)"
    then show ?thesis using pos e assms(4)
      by (auto simp: detect_double_def detect_rnd_def Let_def)
  qed
qed

text \<open>
  The settings carry 0.5 and the detector 0.875. With the settings' sensitivity the
  sensor threshold is the double 90.00000000000001, which the reading of that very value
  does not exceed; with settings that carry none, the detector's 0.875 gives the traffic
  threshold 225.00000000000009, which a volume of 500 exceeds.
\<close>

theorem detect_threshold_rule_witness:
  "sensitivity half_settings = Some (1 / 2) \<and> global_sensitivity tuned_detector = 7 / 8
   \<and> features edge_reading = [6333186975989761 / 70368744177664]
   \<and> data_type edge_reading = ''sensor''
   \<and> detect_double sample_fmt ''n4'' tuned_detector edge_reading half_settings = Inr None
   \<and> sensitivity global_settings = None
   \<and> features busy_link = [500] \<and> data_type busy_link = ''traffic''
   \<and> detect_double sample_fmt ''n2'' tuned_detector busy_link global_settings \<noteq> Inr None"
proof -
  have s1: "sensitivity half_settings = Some (1 / 2)
            \<or> sensitivity half_settings = None \<and> global_sensitivity tuned_detector = 1 / 2"
    by (simp add: half_settings_def)
  have f1: "features edge_reading = 6333186975989761 / 70368744177664 # []"
    "data_type edge_reading = ''sensor''"
    by (simp_all add: edge_reading_def)
  have t1: "data_type edge_reading = ''sensor''
             \<and> (6333186975989761 / 70368744177664 :: real)
                 = round_double (round_double (round_double (11 / 10) - 1 / 2) * 150)
           \<or> data_type edge_reading = ''traffic''
             \<and> (6333186975989761 / 70368744177664 :: real)
                 = round_double (round_double (round_double (11 / 10) - 1 / 2) * 1000)"
    using f1 by (simp add: sensor_threshold_half)
  have s2: "sensitivity global_settings = Some (7 / 8)
            \<or> sensitivity global_settings = None \<and> global_sensitivity tuned_detector = 7 / 8"
    by (simp add: global_settings_def tuned_detector_def)
  have f2: "features busy_link = 500 # []" "data_type busy_link = ''traffic''"
    by (simp_all add: busy_link_def)
  have t2: "data_type busy_link = ''sensor''
             \<and> (7916483719987203 / 35184372088832 :: real)
                 = round_double (round_double (round_double (11 / 10) - 7 / 8) * 150)
           \<or> data_type busy_link = ''traffic''
             \<and> (7916483719987203 / 35184372088832 :: real)
                 = round_double (round_double (round_double (11 / 10) - 7 / 8) * 1000)"
    using f2 by (simp add: traffic_threshold_seven_eighths)
  from detect_threshold_rule [OF _ _ s1 f1(1) t1, of sample_fmt "''n4''"]
       detect_threshold_rule [OF _ _ s2 f2(1) t2, of sample_fmt "''n2''"]
       f1 f2
  show ?thesis
    by (auto simp: half_settings_def tuned_detector_def global_settings_def)
qed

lemma round_double_neg_consts:
  "round_double (- 8) = - 8" "round_double (- 22) = - 22" "round_double (- 2) = - 2"
  "round_double 3 = 3" "round_double (- 19) = - 19"
  using round_double_eval [of 8 3] round_double_eval [of 22 4] round_double_eval [of 2 1]
    round_double_eval [of 3 1] round_double_eval [of 19 4]
    round_double_minus [of 8] round_double_minus [of 22] round_double_minus [of 2]
    round_double_minus [of 19]
  by (simp_all add: rne_eval)

lemma reversed_quotient:
  "round_double (round_double (10 / 19) * 100) = 7407236229227789 / 140737488355328"
proof -
  have a: "round_double (10 / 19) = 4740631186705785 / 9007199254740992"
    using round_double_eval [of "10 / 19" "- 1"] by (simp add: rne_eval)
  have b: "round_double (4740631186705785 / 9007199254740992 * 100)
           = 7407236229227789 / 140737488355328"
    using round_double_eval [of "4740631186705785 / 9007199254740992 * 100" 5]
    by (simp add: rne_eval)
  show ?thesis by (simp only: a b)
qed

text \<open>
  C2 as stated, for every sensitivity, fails: at sensitivity -1 the bounds are
  \<open>lower = -8\<close> and \<open>upper = -19\<close>, so the value -10 lies above \<open>upper\<close> and below \<open>lower\<close>
  at once. The code tests \<open>lower\<close> first and, the value not being positive, gives the
  score 200; \<open>v / upper * 100\<close> is about 52.6.
\<close>

theorem detect_transaction_every_sensitivity_counterexample:
  "sensitivity reversed_settings = Some (- 1)
   \<and> data_type night_payment = ''transaction'' \<and> features night_payment = [- 10]
   \<and> round_double (round_double (- 1 * 22) + round_double (1 - round_double (- 1 * 2))) = - 19
   \<and> (- 10 :: real) > - 19
   \<and> detect_double sample_fmt ''n6'' sample_detector night_payment reversed_settings
       = Inr (Some \<lparr>anomaly_id = ''n6'', data_id = ''e6'', detection_time = 10, score = 200,
                    description = ''transaction: Time 0 below lower bound 0'',
                    severity = ''high''\<rparr>)
   \<and> round_double (round_double (- 10 / - 19) * 100) \<noteq> 200"
  by (simp add: detect_double_def detect_rnd_def Let_def effective_sensitivity_def
        reversed_settings_def night_payment_def sample_fmt_def round_double_neg_consts
        reversed_quotient)

text \<open>
  C2, amended. For every sensitivity \<open>s\<close> between 0 and 1, taken from the settings or,
  when they carry none, from the detector, and a prepared record of category transaction
  with feature value \<open>v\<close>, with \<open>lower = s * 8.0\<close> and \<open>upper = s * 22.0 + (1 - s * 2.0)\<close>,
  all arithmetic in double precision: \<open>detect\<close> never raises; there is no anomaly
  whenever \<open>lower \<le> v \<le> upper\<close>, both boundaries included; for \<open>0 < v < lower\<close> the
  score is \<open>lower / v * 100\<close>, for \<open>v\<close> below \<open>lower\<close> and not positive (so for \<open>v = 0\<close>) it
  is 200, for \<open>v > upper\<close> it is \<open>v / upper * 100\<close>; an anomaly is returned exactly when
  that score exceeds 100, so every anomaly has a score above 100. The values of the two
  computed scores are stated for \<open>v\<close> from \<open>2\<^sup>-\<^sup>1\<^sup>0\<^sup>0\<^sup>0\<close> and up to \<open>2\<^sup>1\<^sup>0\<^sup>0\<^sup>0\<close>, where quotient
  and product stay within the doubles.
\<close>

theorem detect_transaction_rule:
  assumes "0 \<le> s" and "s \<le> 1"
      and "sensitivity st = Some s \<or> sensitivity st = None \<and> global_sensitivity self = s"
      and "data_type d = ''transaction''"
      and "features d = v # rest"
      and "lower = round_double (s * 8)"
      and "upper = round_double (round_double (s * 22) + round_double (1 - round_double (s * 2)))"
  shows "(\<forall>e. detect_double fmt uid self d st \<noteq> Inl e)
       \<and> (lower \<le> v \<and> v \<le> upper \<longrightarrow> detect_double fmt uid self d st = Inr None)
       \<and> (0 < v \<and> v < lower \<longrightarrow>
            ((\<exists>a. detect_double fmt uid self d st = Inr (Some a))
               \<longleftrightarrow> round_double (round_double (lower / v) * 100) > 100)
          \<and> (\<forall>a. detect_double fmt uid self d st = Inr (Some a) \<and> 2 powi (- 1000) \<le> v \<longrightarrow>
                 score a = round_double (round_double (lower / v) * 100)))
       \<and> (v \<le> 0 \<and> v < lower \<longrightarrow>
            (\<exists>a. detect_double fmt uid self d st = Inr (Some a) \<and> score a = 200))
       \<and> (v > upper \<longrightarrow>
            ((\<exists>a. detect_double fmt uid self d st = Inr (Some a))
               \<longleftrightarrow> round_double (round_double (v / upper) * 100) > 100)
          \<and> (\<forall>a. detect_double fmt uid self d st = Inr (Some a) \<and> v \<le> 2 ^ 1000 \<longrightarrow>
                 score a = round_double (round_double (v / upper) * 100)))
       \<and> (\<forall>a. detect_double fmt uid self d st = Inr (Some a) \<longrightarrow> score a > 100)"
proof -
  have e: "effective_sensitivity self st = s"
    by (rule effective_sensitivity_cases [OF assms(3)])
  have up: "lower \<le> upper" "0 < upper"
    using transaction_bounds [OF assms(1,2)] assms(6,7) by simp_all
  note defs = detect_double_def detect_rnd_def Let_def
  have c0: "\<forall>e. detect_double fmt uid self d st \<noteq> Inl e"
    using e up assms(4-7) by (auto simp: defs)
  have c1: "lower \<le> v \<and> v \<le> upper \<longrightarrow> detect_double fmt uid self d st = Inr None"
    using e assms(4-7) by (simp add: defs)
  have c2: "0 < v \<and> v < lower \<longrightarrow>
            ((\<exists>a. detect_double fmt uid self d st = Inr (Some a))
               \<longleftrightarrow> round_double (round_double (lower / v) * 100) > 100)
          \<and> (\<forall>a. detect_double fmt uid self d st = Inr (Some a) \<and> 2 powi (- 1000) \<le> v \<longrightarrow>
                 score a = round_double (round_double (lower / v) * 100))"
    using e assms(4-7) by (auto simp: defs)
  have c3: "v \<le> 0 \<and> v < lower \<longrightarrow>
            (\<exists>a. detect_double fmt uid self d st = Inr (Some a) \<and> score a = 200)"
    using e assms(4-7) by (auto simp: defs)
  have c4: "v > upper \<longrightarrow>
            ((\<exists>a. detect_double fmt uid self d st = Inr (Some a))
               \<longleftrightarrow> round_double (round_double (v / upper) * 100) > 100)
          \<and> (\<forall>a. detect_double fmt uid self d st = Inr (Some a) \<and> v \<le> 2 ^ 1000 \<longrightarrow>
                 score a = round_double (round_double (v / upper) * 100))"
    using e up assms(4-7) by (auto simp: defs)
  have c5: "\<forall>a. detect_double fmt uid self d st = Inr (Some a) \<longrightarrow> score a > 100"
    using e assms(4-7) by (auto simp: defs split: if_splits)
  from c0 c1 c2 c3 c4 c5 show ?thesis by blast
qed
lemma three_tenths_bounds:
  "round_double (5404319552844595 / 18014398509481984 * 8)
   = 5404319552844595 / 2251799813685248"
  "round_double (round_double (5404319552844595 / 18014398509481984 * 22)
     + round_double (1 - round_double (5404319552844595 / 18014398509481984 * 2))) = 7"
proof -
  show "round_double (5404319552844595 / 18014398509481984 * 8)
        = 5404319552844595 / 2251799813685248"
    using round_double_eval [of "5404319552844595 / 18014398509481984 * 8" 1]
    by (simp add: rne_eval)
  have a: "round_double (5404319552844595 / 18014398509481984 * 22)
           = 3715469692580659 / 562949953421312"
    using round_double_eval [of "5404319552844595 / 18014398509481984 * 22" 2]
    by (simp add: rne_eval)
  have c: "round_double (5404319552844595 / 18014398509481984 * 2)
           = 5404319552844595 / 9007199254740992"
    using round_double_eval [of "5404319552844595 / 18014398509481984 * 2" "- 1"]
    by (simp add: rne_eval)
  have b: "round_double (1 - 5404319552844595 / 9007199254740992)
           = 3602879701896397 / 9007199254740992"
    using round_double_eval [of "1 - 5404319552844595 / 9007199254740992" "- 2"]
    by (simp add: rne_eval)
  have u: "round_double (3715469692580659 / 562949953421312
                         + 3602879701896397 / 9007199254740992) = 7"
    using round_double_eval
            [of "3715469692580659 / 562949953421312 + 3602879701896397 / 9007199254740992" 2]
    by (simp add: rne_eval)
  show "round_double (round_double (5404319552844595 / 18014398509481984 * 22)
     + round_double (1 - round_double (5404319552844595 / 18014398509481984 * 2))) = 7"
    by (simp only: a c b u)
qed

lemma half_bounds:
  "round_double (1 / 2 * 8) = 4"
  "round_double (round_double (1 / 2 * 22) + round_double (1 - round_double (1 / 2 * 2))) = 11"
  "round_double (round_double 2 * 100) = 200"
  using round_double_eval [of 4 2] round_double_eval [of 200 7]
  by (simp_all add: rne_eval round_double_consts)

text \<open>
  At the double nearest to 0.3 the upper bound is exactly 7, and a time of 7 lies on the
  boundary: no anomaly. With settings that carry no sensitivity the detector's 0.5
  gives the band from 4 to 11, and a time of 2 is flagged.
\<close>

theorem detect_transaction_rule_witness:
  "sensitivity three_tenths_settings = Some (5404319552844595 / 18014398509481984)
   \<and> data_type boundary_payment = ''transaction'' \<and> features boundary_payment = [7]
   \<and> detect_double sample_fmt ''n5'' tuned_detector boundary_payment three_tenths_settings
       = Inr None
   \<and> sensitivity global_settings = None \<and> global_sensitivity sample_detector = 1 / 2
   \<and> data_type early_payment = ''transaction'' \<and> features early_payment = [2]
   \<and> detect_double sample_fmt ''n3'' sample_detector early_payment global_settings
       \<noteq> Inr None"
proof -
  have s1: "sensitivity three_tenths_settings = Some (5404319552844595 / 18014398509481984)
            \<or> sensitivity three_tenths_settings = None
              \<and> global_sensitivity tuned_detector = 5404319552844595 / 18014398509481984"
    by (simp add: three_tenths_settings_def)
  have f1: "data_type boundary_payment = ''transaction''" "features boundary_payment = 7 # []"
    by (simp_all add: boundary_payment_def)
  have s2: "sensitivity global_settings = Some (1 / 2)
            \<or> sensitivity global_settings = None \<and> global_sensitivity sample_detector = 1 / 2"
    by (simp add: global_settings_def sample_detector_def)
  have f2: "data_type early_payment = ''transaction''" "features early_payment = 2 # []"
    by (simp_all add: early_payment_def)
  from detect_transaction_rule
         [OF _ _ s1 f1 three_tenths_bounds(1) [symmetric] three_tenths_bounds(2) [symmetric],
          of sample_fmt "''n5''"]
       detect_transaction_rule
         [OF _ _ s2 f2 half_bounds(1) [symmetric] half_bounds(2) [symmetric],
          of sample_fmt "''n3''"]
       f1 f2
  show ?thesis
    by (auto simp: three_tenths_settings_def global_settings_def sample_detector_def
          half_bounds(3))
qed



lemma rne_above_half:
  assumes "of_int n + 1 / 2 < y"
  shows "n + 1 \<le> rne y"
proof -
  have fl: "n \<le> \<lfloor>y\<rfloor>" using assms by (simp add: le_floor_iff)
  show ?thesis
  proof (cases "n + 1 \<le> \<lfloor>y\<rfloor>")
    case True
    with rne_bounds [of y] show ?thesis by linarith
  next
    case False
    with fl have "\<lfloor>y\<rfloor> = n" by simp
    with assms show ?thesis by (simp add: rne_def Let_def)
  qed
qed

text \<open>
  Two doubles that differ lie at least one unit in the last place of the smaller apart.
\<close>

lemma double_gap:
  assumes "round_double t = t" and "round_double v = v" and "0 < t" and "t < v"
  shows "t + 2 powi (binade t - 52) \<le> v"
proof -
  define e where "e = binade t"
  define e' where "e' = binade v"
  define n where "n = rne (t / 2 powi (e - 52))"
  define m where "m = rne (v / 2 powi (e' - 52))"
  have v0: "0 < v" using assms(3,4) by simp
  have t: "t = of_int n * 2 powi (e - 52)"
    using assms(1,3) by (simp add: n_def e_def round_double_pos)
  have v: "v = of_int m * 2 powi (e' - 52)"
    using assms(2) v0 by (simp add: m_def e'_def round_double_pos)
  have ee: "e \<le> e'"
    unfolding e_def e'_def using binade_mono [of t v] assms(3,4) by simp
  have "(2::real) powi (e' - 52) = 2 powi (e - 52) * 2 powi (e' - e)"
    using power_int_add [of "2::real" "e - 52" "e' - e"] by simp
  also have "(2::real) powi (e' - e) = of_int (2 ^ nat (e' - e))"
    using ee by (simp add: power_int_def)
  finally have q: "(2::real) powi (e' - 52) = 2 powi (e - 52) * of_int (2 ^ nat (e' - e))" .
  have v': "v = of_int (m * 2 ^ nat (e' - e)) * 2 powi (e - 52)"
    by (subst v, subst q) simp
  have "of_int n * 2 powi (e - 52) < of_int (m * 2 ^ nat (e' - e)) * (2::real) powi (e - 52)"
    using assms(4) t v' by simp
  then have "(of_int n :: real) < of_int (m * 2 ^ nat (e' - e))"
    by (simp only: mult_less_cancel_right_pos [OF two_powi_pos])
  then have "n + 1 \<le> m * 2 ^ nat (e' - e)" by linarith
  then have "(of_int (n + 1) :: real) \<le> of_int (m * 2 ^ nat (e' - e))"
    by (simp only: of_int_le_iff)
  then have "of_int (n + 1) * 2 powi (e - 52)
             \<le> of_int (m * 2 ^ nat (e' - e)) * (2::real) powi (e - 52)"
    by (intro mult_right_mono) simp_all
  then have "of_int (n + 1) * 2 powi (e - 52) \<le> v" using v' by simp
  moreover have "of_int (n + 1) * (2::real) powi (e - 52) = t + 2 powi (e - 52)"
    by (subst t) (simp add: algebra_simps)
  ultimately show ?thesis by (simp add: e_def)
qed

lemma round_double_above_one:
  assumes "1 + 1 / 2 ^ 53 < x"
  shows "1 + 1 / 2 ^ 52 \<le> round_double x"
proof (cases "2 \<le> x")
  case True
  then have "(2::real) powi 1 \<le> x" by simp
  then have "(2::real) powi 1 \<le> round_double x" by (rule round_double_power_lower) simp
  then show ?thesis by simp
next
  case False
  have x1: "2 powi 0 \<le> x" "x < 2 powi (0 + 1)" "0 < x"
    using assms False by simp_all
  have r: "round_double x = of_int (rne (x * 2 ^ 52)) / 2 ^ 52"
    using round_double_eval [OF x1(3) x1(1) x1(2)] by (simp add: power_int_minus field_simps)
  have "of_int (2 ^ 52) + 1 / 2 < x * 2 ^ 52"
    using assms by (simp add: field_simps)
  then have "2 ^ 52 + 1 \<le> rne (x * 2 ^ 52)" by (rule rne_above_half)
  then have "(of_int (2 ^ 52 + 1) :: real) \<le> of_int (rne (x * 2 ^ 52))"
    by (simp only: of_int_le_iff)
  then show ?thesis by (simp add: r field_simps)
qed

text \<open>
  The quotient of two doubles, the larger by the smaller, rounds to more than 1, and a
  hundred times it rounds to more than 100.
\<close>

lemma quotient_score_above_100:
  assumes "round_double t = t" and "round_double v = v" and "0 < t" and "t < v"
  shows "100 < round_double (round_double (v / t) * 100)"
proof -
  have up: "t < 2 * 2 powi binade t"
    using binade_upper [of t] assms(3) by (simp add: two_powi_Suc)
  have q: "(2::real) powi (binade t - 52) = 2 powi binade t / 2 ^ 52"
    by (simp add: power_int_diff)
  have "t / 2 ^ 53 < 2 powi (binade t - 52)"
    using up by (simp add: q field_simps)
  then have "t + t / 2 ^ 53 < v"
    using double_gap [OF assms] by simp
  then have "1 + 1 / 2 ^ 53 < v / t"
    using assms(3) by (simp add: field_simps)
  then have "1 + 1 / 2 ^ 52 \<le> round_double (v / t)" by (rule round_double_above_one)
  then have "(1 + 1 / 2 ^ 52) * 100 \<le> round_double (v / t) * 100" by simp
  then have "round_double ((1 + 1 / 2 ^ 52) * 100) \<le> round_double (round_double (v / t) * 100)"
    by (rule round_double_mono)
  moreover have "round_double ((1 + 1 / 2 ^ 52) * 100) = 100 + 1 / 2 ^ 45"
    using round_double_eval [of "(1 + 1 / 2 ^ 52) * 100" 6] by (simp add: rne_eval)
  ultimately show ?thesis by simp
qed

text \<open>
  The same in double precision, as the code computes: for a sensitivity between 0 and
  1 and a record whose features are doubles, any anomaly \<open>detect\<close> returns has a score
  above 100 and severity medium or high.
\<close>

lemma detect_double_score_above_100:
  assumes "0 \<le> s" and "s \<le> 1"
      and "effective_sensitivity self st = s"
      and "\<forall>v \<in> set (features d). round_double v = v"
      and "detect_double fmt uid self d st = Inr (Some a)"
  shows "100 < score a \<and> (severity a = ''medium'' \<or> severity a = ''high'')"
proof -
  have pos: "0 < round_double (round_double (round_double (11 / 10) - s) * 150)"
    "0 < round_double (round_double (round_double (11 / 10) - s) * 1000)"
    using thresholds_positive [OF assms(1,2)] by simp_all
  have q: "\<And>v t. v \<in> set (features d) \<Longrightarrow> 0 < round_double t \<Longrightarrow> round_double t < v \<Longrightarrow>
             100 < round_double (round_double (v / round_double t) * 100)"
    using assms(4) by (intro quotient_score_above_100) (simp_all add: round_double_idem)
  show ?thesis
    using assms(3,5) pos q
    by (auto simp: detect_double_def detect_rnd_def Let_def split: if_splits list.splits)
qed
section \<open>Feature extraction\<close>

lemmas decimal_float_eval = decimal_float_def strip_def is_space_def parse_mantissa_def
  all_digits_def is_digit_def digits_val_def digit_val_def is_exp_mark_def parse_exponent_def

lemma decimal_float_zero: "decimal_float ''0'' = Some 0"
  by (simp add: decimal_float_eval)

lemma unknown_discriminant:
  "attributes r ''type'' \<notin> {Some ''1'', Some ''2'', Some ''3''} \<Longrightarrow>
   preprocess_data parse r = Inl ValueError"
  by (auto simp: preprocess_data_def split: option.splits)

text \<open>
  C5 as stated fails: an event of type \<open>1\<close> without a temperature attribute is not
  rejected; the default string \<^verbatim>\<open>'0'\<close> is parsed and extraction succeeds with the
  feature value 0.
\<close>

theorem preprocess_missing_attribute_counterexample:
  "attributes bare_event ''type'' = Some ''1''
   \<and> attributes bare_event ''temperature'' = None
   \<and> decimal_float ''0'' = Some 0
   \<and> preprocess_data decimal_float bare_event
     = Inr \<lparr>prep_id = ''e1'', prep_timestamp = 0, data_type = ''sensor'', features = [0]\<rparr>"
  by (simp add: preprocess_data_def get_or_zero_def decimal_float_zero bare_event_def)

text \<open>
  C5, amended. For an event of type \<open>1\<close>, \<open>2\<close> or \<open>3\<close> and the attribute read for it
  (temperature, time_of_day, volume), whatever \<^verbatim>\<open>float\<close> accepts: when the attribute is
  present and \<^verbatim>\<open>float\<close> rejects its string, extraction fails with that \<open>ValueError\<close>; when
  it is present and \<^verbatim>\<open>float\<close> accepts it, the value is the feature; when it is missing,
  the string \<^verbatim>\<open>'0'\<close> is parsed in its place, so with \<^verbatim>\<open>float('0') = 0.0\<close> extraction
  succeeds and the feature is 0.
\<close>

theorem preprocess_missing_or_malformed:
  assumes "(t, key, cat) \<in> {(''1'', ''temperature'', ''sensor''),
                             (''2'', ''time_of_day'', ''transaction''),
                             (''3'', ''volume'', ''traffic'')}"
      and "attributes r ''type'' = Some t"
  shows "(attributes r key = None \<and> parse ''0'' = Some 0 \<longrightarrow>
            preprocess_data parse r
              = Inr \<lparr>prep_id = raw_id r, prep_timestamp = raw_timestamp r,
                     data_type = cat, features = [0]\<rparr>)
       \<and> (\<forall>x. attributes r key = Some x \<and> parse x = None \<longrightarrow>
            preprocess_data parse r = Inl ValueError)
       \<and> (\<forall>x y. attributes r key = Some x \<and> parse x = Some y \<longrightarrow>
            preprocess_data parse r
              = Inr \<lparr>prep_id = raw_id r, prep_timestamp = raw_timestamp r,
                     data_type = cat, features = [y]\<rparr>)"
  using assms by (auto simp: preprocess_data_def get_or_zero_def)

text \<open>
  The time of day \<^verbatim>\<open>'noon'\<close> is rejected; the event without a temperature gets the
  feature 0.
\<close>

theorem preprocess_missing_or_malformed_witness:
  "attributes noon_event ''type'' = Some ''2''
   \<and> attributes noon_event ''time_of_day'' = Some ''noon''
   \<and> decimal_float ''noon'' = None
   \<and> preprocess_data decimal_float noon_event = Inl ValueError
   \<and> attributes bare_event ''type'' = Some ''1''
   \<and> attributes bare_event ''temperature'' = None
   \<and> features (projr (preprocess_data decimal_float bare_event)) = [0]"
proof -
  have a: "attributes noon_event ''type'' = Some ''2''"
    "attributes noon_event ''time_of_day'' = Some ''noon''"
    by (simp_all add: noon_event_def)
  have b: "attributes bare_event ''type'' = Some ''1''"
    "attributes bare_event ''temperature'' = None"
    by (simp_all add: bare_event_def)
  have p: "decimal_float ''noon'' = None" by (simp add: decimal_float_eval)
  from preprocess_missing_or_malformed
         [of "''2''" "''time_of_day''" "''transaction''" noon_event decimal_float, OF _ a(1)]
       preprocess_missing_or_malformed
         [of "''1''" "''temperature''" "''sensor''" bare_event decimal_float, OF _ b(1)]
       a b p decimal_float_zero
  show ?thesis by simp
qed

section \<open>Pipeline\<close>

text \<open>
  C6. If feature extraction fails, \<open>process_new_raw_data\<close> ends with that failure and
  the controller, its store included, is as it was: nothing is stored. An unrecognised
  type discriminant is such a failure. And whenever the call changes the list of
  anomalies, extraction has succeeded and the store holds the event's raw record and its
  prepared record, each appended, next to the one appended anomaly. (The code raises
  \<open>ValueError\<close> for both kinds of extraction failure.)
\<close>

theorem process_failed_extraction_stores_nothing:
  "(\<forall>e. preprocess_data (float_of_str env) raw = Inl e \<longrightarrow>
        process_new_raw_data env raw self = (self, Some e))
   \<and> (attributes raw ''type'' \<notin> {Some ''1'', Some ''2'', Some ''3''} \<longrightarrow>
        process_new_raw_data env raw self = (self, Some ValueError))
   \<and> (anomalies (storage (fst (process_new_raw_data env raw self))) \<noteq> anomalies (storage self) \<longrightarrow>
        (\<exists>p a. preprocess_data (float_of_str env) raw = Inr p
             \<and> raw_data (storage (fst (process_new_raw_data env raw self)))
                 = raw_data (storage self) @ [raw]
             \<and> prepared_data (storage (fst (process_new_raw_data env raw self)))
                 = prepared_data (storage self) @ [p]
             \<and> anomalies (storage (fst (process_new_raw_data env raw self)))
                 = anomalies (storage self) @ [a]))"
proof -
  have a: "\<forall>e. preprocess_data (float_of_str env) raw = Inl e \<longrightarrow>
             process_new_raw_data env raw self = (self, Some e)"
    by (simp add: process_new_raw_data_def)
  have b: "attributes raw ''type'' \<notin> {Some ''1'', Some ''2'', Some ''3''} \<longrightarrow>
        process_new_raw_data env raw self = (self, Some ValueError)"
    using unknown_discriminant [of raw "float_of_str env"] by (simp add: process_new_raw_data_def)
  have c: "anomalies (storage (fst (process_new_raw_data env raw self))) \<noteq> anomalies (storage self) \<longrightarrow>
        (\<exists>p a. preprocess_data (float_of_str env) raw = Inr p
             \<and> raw_data (storage (fst (process_new_raw_data env raw self)))
                 = raw_data (storage self) @ [raw]
             \<and> prepared_data (storage (fst (process_new_raw_data env raw self)))
                 = prepared_data (storage self) @ [p]
             \<and> anomalies (storage (fst (process_new_raw_data env raw self)))
                 = anomalies (storage self) @ [a])"
    by (auto simp: process_new_raw_data_def Let_def store_raw_data_def store_prepared_data_def
          store_anomaly_def split: sum.splits option.splits)
  from a b c show ?thesis by blast
qed

lemma decimal_float_180: "decimal_float ''180'' = Some 180"
  by (simp add: decimal_float_eval)

lemma hot_reading_detected_double:
  "detect_double sample_fmt ''n1'' sample_detector hot_reading
     \<lparr>settings_user_id = ''u1'', sensitivity = Some (1 / 2), monitored_sources = [''any'']\<rparr>
   = Inr (Some hot_anomaly_double)"
proof -
  have s: "round_double (round_double (12666373951979520 / 6333186975989761) * 100)
           = 7036874417766399 / 35184372088832"
    using hot_reading_score by simp
  show ?thesis
    by (simp add: detect_double_def detect_rnd_def effective_sensitivity_def hot_reading_def
          sample_fmt_def hot_anomaly_double_def Let_def sensor_threshold_half s)
qed

lemma hot_event_anomalies:
  "anomalies (storage (fst (process_new_raw_data sample_env hot_event sample_controller)))
   = [hot_anomaly_double]"
  using hot_reading_detected_double
  by (simp add: process_new_raw_data_def preprocess_data_def hot_event_def get_or_zero_def
        decimal_float_180 sample_controller_def sample_env_def sample_detector_def
        sample_user_def load_settings_def Let_def hot_reading_def
        store_raw_data_def store_prepared_data_def store_anomaly_def)

text \<open>
  An event of the unknown type \<open>9\<close> leaves the sample controller as it was; the event
  with temperature 180 is stored raw once its anomaly is.
\<close>

theorem process_failed_extraction_stores_nothing_witness:
  "attributes unknown_event ''type'' \<notin> {Some ''1'', Some ''2'', Some ''3''}
   \<and> process_new_raw_data sample_env unknown_event sample_controller
       = (sample_controller, Some ValueError)
   \<and> anomalies (storage (fst (process_new_raw_data sample_env hot_event sample_controller)))
       \<noteq> anomalies (storage sample_controller)
   \<and> raw_data (storage (fst (process_new_raw_data sample_env hot_event sample_controller)))
       = [hot_event]"
proof -
  have u: "attributes unknown_event ''type'' \<notin> {Some ''1'', Some ''2'', Some ''3''}"
    by (simp add: unknown_event_def)
  have h: "anomalies (storage (fst (process_new_raw_data sample_env hot_event sample_controller)))
       \<noteq> anomalies (storage sample_controller)"
    by (simp add: hot_event_anomalies) (simp add: sample_controller_def)
  have r: "raw_data (storage sample_controller) = []"
    by (simp add: sample_controller_def)
  from process_failed_extraction_stores_nothing [of sample_env unknown_event sample_controller]
       process_failed_extraction_stores_nothing [of sample_env hot_event sample_controller]
       u h r
  show ?thesis by auto
qed

section \<open>Role-scoped queries\<close>

lemma detect_rnd_description_prefix:
  assumes "detect_rnd rnd fmt uid self d st = Inr (Some a)"
  shows "data_type d \<in> {''sensor'', ''traffic'', ''transaction''}
       \<and> prefix (data_type d @ '':'') (description a)"
  using assms
  by (auto simp: detect_rnd_def Let_def split: if_splits list.splits)

text \<open>
  C7. For an anomaly that \<open>detect\<close> produced from a prepared record \<open>d\<close>, in double
  precision, in exact arithmetic or under any other rounding \<open>rnd\<close>, any store and any
  time range: the anomaly is in the answer of \<open>get_anomalies\<close> for role security
  exactly when it is in the store, \<open>d\<close> has category traffic and the detection time lies
  in the inclusive range; the same for equipment with sensor and for fraud with
  transaction. So no role is shown an anomaly of another role's category.
\<close>

theorem get_anomalies_role_isolation:
  assumes "detect_rnd rnd fmt uid self d st = Inr (Some a)"
  shows "(a \<in> set (get_anomalies store ''security'' lo hi) \<longleftrightarrow>
            a \<in> set (anomalies store) \<and> data_type d = ''traffic''
            \<and> lo \<le> detection_time a \<and> detection_time a \<le> hi)
       \<and> (a \<in> set (get_anomalies store ''equipment'' lo hi) \<longleftrightarrow>
            a \<in> set (anomalies store) \<and> data_type d = ''sensor''
            \<and> lo \<le> detection_time a \<and> detection_time a \<le> hi)
       \<and> (a \<in> set (get_anomalies store ''fraud'' lo hi) \<longleftrightarrow>
            a \<in> set (anomalies store) \<and> data_type d = ''transaction''
            \<and> lo \<le> detection_time a \<and> detection_time a \<le> hi)"
proof -
  from detect_rnd_description_prefix [OF assms]
  obtain rest where dt: "data_type d \<in> {''sensor'', ''traffic'', ''transaction''}"
    and desc: "description a = data_type d @ '':'' @ rest"
    by (auto simp: prefix_def)
  from dt desc show ?thesis
    by (auto simp: get_anomalies_def role_map_def)
qed

text \<open>
  The sensor anomaly of the reading 180, as the code computes it, stored alone: security
  does not see it, equipment does.
\<close>

theorem get_anomalies_role_isolation_witness:
  "detect_double sample_fmt ''n1'' sample_detector hot_reading half_settings
     = Inr (Some hot_anomaly_double)
   \<and> detect_double = detect_rnd round_double
   \<and> hot_anomaly_double \<notin> set (get_anomalies hot_store ''security'' 0 10)
   \<and> hot_anomaly_double \<in> set (get_anomalies hot_store ''equipment'' 0 10)"
proof -
  have h: "detect_rnd round_double sample_fmt ''n1'' sample_detector hot_reading half_settings
           = Inr (Some hot_anomaly_double)"
    using hot_reading_detected_double by (simp add: detect_double_def half_settings_def)
  from get_anomalies_role_isolation [OF h, of hot_store 0 10] h
  show ?thesis
    by (simp add: detect_double_def hot_reading_def hot_store_def hot_anomaly_double_def)
qed
section \<open>Event source\<close>

lemma generate_one_data_fields:
  "listener (snd (generate_one_data fmt dr self)) = listener self"
  "running (snd (generate_one_data fmt dr self)) = running self"
  "generated_count (snd (generate_one_data fmt dr self)) = generated_count self"
  by (simp_all add: generate_one_data_def Let_def)

lemma generate_loop_stops_at_failure:
  assumes "running self" and "generated_count self < 300" and "listener self = Some cb"
      and "snd (cb (fst (generate_one_data fmt (draws (generated_count self)) self)) w) = Some e"
  shows "generate_loop fmt draws self w
         = (snd (generate_one_data fmt (draws (generated_count self)) self),
            fst (cb (fst (generate_one_data fmt (draws (generated_count self)) self)) w),
            Some e)"
proof -
  obtain w1 where c: "cb (fst (generate_one_data fmt (draws (generated_count self)) self)) w
                      = (w1, Some e)"
    using assms(4) by (metis prod.collapse)
  show ?thesis
    using assms(1-3) c
    by (subst generate_loop.simps) (simp add: Let_def generate_one_data_fields)
qed

text \<open>
  What every run comes to: either it ends without an exception, and then at the cap, or
  it ends with an exception, and then at a call of the listener that raised it, below
  the cap, the event of that call not counted.
\<close>

lemma generate_loop_run:
  assumes "running self" and "generated_count self \<le> 300"
  shows "(snd (snd (generate_loop fmt draws self w)) = None \<longrightarrow>
            generated_count (fst (generate_loop fmt draws self w)) = 300)
       \<and> (\<forall>e. snd (snd (generate_loop fmt draws self w)) = Some e \<longrightarrow>
            generated_count (fst (generate_loop fmt draws self w)) < 300
          \<and> generated_count self \<le> generated_count (fst (generate_loop fmt draws self w))
          \<and> (\<exists>cb src w0.
                listener self = Some cb \<and> running src
              \<and> generated_count src = generated_count (fst (generate_loop fmt draws self w))
              \<and> fst (generate_loop fmt draws self w)
                  = snd (generate_one_data fmt (draws (generated_count src)) src)
              \<and> cb (fst (generate_one_data fmt (draws (generated_count src)) src)) w0
                  = (fst (snd (generate_loop fmt draws self w)), Some e)))"
  using assms
proof (induction fmt draws self w rule: generate_loop.induct)
  case (1 fmt draws self w)
  let ?g = "generate_one_data fmt (draws (generated_count self)) self"
  let ?next = "(snd ?g)\<lparr>generated_count := generated_count (snd ?g) + 1\<rparr>"
  show ?case
  proof (cases "generated_count self < 300")
    case False
    with "1.prems" have "generate_loop fmt draws self w = (self, w, None)"
      by (subst generate_loop.simps) simp
    with False "1.prems" show ?thesis by simp
  next
    case True
    have nx: "running ?next" "generated_count ?next \<le> 300"
      using "1.prems" True by (simp_all add: generate_one_data_fields)
    have cnt: "generated_count ?next = generated_count self + 1"
      by (simp add: generate_one_data_fields)
    have lst: "listener ?next = listener self"
      by (simp add: generate_one_data_fields)
    show ?thesis
    proof (cases "listener self")
      case None
      then have l: "listener (snd ?g) = None" by (simp add: generate_one_data_fields)
      have unfold: "generate_loop fmt draws self w = generate_loop fmt draws ?next w"
        using True "1.prems"(1) l by (subst generate_loop.simps) (simp add: Let_def)
      from "1.IH"(1) [OF _ refl refl l nx] True "1.prems"(1) None lst
      show ?thesis unfolding unfold by auto
    next
      case (Some cb)
      then have l: "listener (snd ?g) = Some cb" by (simp add: generate_one_data_fields)
      obtain w1 r where c: "cb (fst ?g) w = (w1, r)" by (cases "cb (fst ?g) w")
      show ?thesis
      proof (cases r)
        case None
        with c have c': "cb (fst ?g) w = (w1, None)" by simp
        have unfold: "generate_loop fmt draws self w = generate_loop fmt draws ?next w1"
          using True "1.prems"(1) l c' by (subst generate_loop.simps) (simp add: Let_def)
        from "1.IH"(2) [OF _ refl refl l c' [symmetric] refl nx] True "1.prems"(1)
        have ih: "(snd (snd (generate_loop fmt draws ?next w1)) = None \<longrightarrow>
                    generated_count (fst (generate_loop fmt draws ?next w1)) = 300)
          \<and> (\<forall>e. snd (snd (generate_loop fmt draws ?next w1)) = Some e \<longrightarrow>
                generated_count (fst (generate_loop fmt draws ?next w1)) < 300
              \<and> generated_count ?next \<le> generated_count (fst (generate_loop fmt draws ?next w1))
              \<and> (\<exists>cb src w0.
                    listener ?next = Some cb \<and> running src
                  \<and> generated_count src = generated_count (fst (generate_loop fmt draws ?next w1))
                  \<and> fst (generate_loop fmt draws ?next w1)
                      = snd (generate_one_data fmt (draws (generated_count src)) src)
                  \<and> cb (fst (generate_one_data fmt (draws (generated_count src)) src)) w0
                      = (fst (snd (generate_loop fmt draws ?next w1)), Some e)))"
          by simp
        have le: "\<And>n. generated_count ?next \<le> n \<Longrightarrow> generated_count self \<le> n"
          using cnt by simp
        show ?thesis
          unfolding unfold using ih le unfolding lst by blast
      next
        case (Some e)
        with c have s: "snd (cb (fst ?g) w) = Some e" by simp
        have res: "generate_loop fmt draws self w = (snd ?g, fst (cb (fst ?g) w), Some e)"
          using generate_loop_stops_at_failure [of self cb fmt draws w e]
                "1.prems"(1) True \<open>listener self = Some cb\<close> s
          by simp
        have "\<exists>cb' src w0.
                listener self = Some cb' \<and> running src
              \<and> generated_count src = generated_count (snd ?g)
              \<and> snd ?g = snd (generate_one_data fmt (draws (generated_count src)) src)
              \<and> cb' (fst (generate_one_data fmt (draws (generated_count src)) src)) w0
                  = (fst (cb (fst ?g) w), Some e)"
          using \<open>listener self = Some cb\<close> "1.prems"(1) c Some
          by (intro exI [of _ cb] exI [of _ self] exI [of _ w])
             (simp add: generate_one_data_fields)
        with True show ?thesis
          unfolding res by (simp add: generate_one_data_fields)
      qed
    qed
  qed
qed

text \<open>
  C8 as stated fails: with a listener that raises on the first event, the run ends with
  that exception and with no event counted, far from the cap of 300.
\<close>

theorem generate_loop_listener_failure_counterexample:
  "running failing_source \<and> listener failing_source = Some failing_listener
   \<and> generated_count (fst (generate_loop sample_fmt sample_draws failing_source ())) = 0
   \<and> snd (snd (generate_loop sample_fmt sample_draws failing_source ())) = Some ValueError"
  by (subst generate_loop.simps, subst (2) generate_loop.simps)
     (simp add: Let_def generate_one_data_fields failing_source_def failing_listener_def)

text \<open>
  C8, amended. A failure of the listener is not swallowed. For every run of the
  generation loop: when the loop hands an event to a listener that raises, the run ends
  there with that exception; a run that ends with an exception has ended so, at a call of
  the registered listener that raised it, with that event not counted, fewer than 300
  events counted and none generated after it; and a run that ends without an exception
  has counted events up to the hard cap of 300.
\<close>

theorem generate_loop_failure_propagates:
  "(running self \<and> generated_count self < 300 \<and> listener self = Some cb
      \<and> snd (cb (fst (generate_one_data fmt (draws (generated_count self)) self)) w) = Some e
    \<longrightarrow> generate_loop fmt draws self w
         = (snd (generate_one_data fmt (draws (generated_count self)) self),
            fst (cb (fst (generate_one_data fmt (draws (generated_count self)) self)) w),
            Some e))
   \<and> (running self \<and> generated_count self \<le> 300 \<longrightarrow>
        (snd (snd (generate_loop fmt draws self w)) = None \<longrightarrow>
            generated_count (fst (generate_loop fmt draws self w)) = 300)
      \<and> (\<forall>x. snd (snd (generate_loop fmt draws self w)) = Some x \<longrightarrow>
            generated_count (fst (generate_loop fmt draws self w)) < 300
          \<and> generated_count self \<le> generated_count (fst (generate_loop fmt draws self w))
          \<and> (\<exists>cb src w0.
                listener self = Some cb \<and> running src
              \<and> generated_count src = generated_count (fst (generate_loop fmt draws self w))
              \<and> fst (generate_loop fmt draws self w)
                  = snd (generate_one_data fmt (draws (generated_count src)) src)
              \<and> cb (fst (generate_one_data fmt (draws (generated_count src)) src)) w0
                  = (fst (snd (generate_loop fmt draws self w)), Some x))))"
proof (intro conjI impI)
  assume "running self \<and> generated_count self < 300 \<and> listener self = Some cb
      \<and> snd (cb (fst (generate_one_data fmt (draws (generated_count self)) self)) w) = Some e"
  then show "generate_loop fmt draws self w
         = (snd (generate_one_data fmt (draws (generated_count self)) self),
            fst (cb (fst (generate_one_data fmt (draws (generated_count self)) self)) w),
            Some e)"
    using generate_loop_stops_at_failure [of self cb fmt draws w e] by simp
next
  assume "running self \<and> generated_count self \<le> 300"
    and "snd (snd (generate_loop fmt draws self w)) = None"
  then show "generated_count (fst (generate_loop fmt draws self w)) = 300"
    using generate_loop_run [of self fmt draws w] by simp
next
  assume "running self \<and> generated_count self \<le> 300"
  then show "\<forall>x. snd (snd (generate_loop fmt draws self w)) = Some x \<longrightarrow>
            generated_count (fst (generate_loop fmt draws self w)) < 300
          \<and> generated_count self \<le> generated_count (fst (generate_loop fmt draws self w))
          \<and> (\<exists>cb src w0.
                listener self = Some cb \<and> running src
              \<and> generated_count src = generated_count (fst (generate_loop fmt draws self w))
              \<and> fst (generate_loop fmt draws self w)
                  = snd (generate_one_data fmt (draws (generated_count src)) src)
              \<and> cb (fst (generate_one_data fmt (draws (generated_count src)) src)) w0
                  = (fst (snd (generate_loop fmt draws self w)), Some x))"
    using generate_loop_run [of self fmt draws w] by simp
qed

lemma quiet_source_run:
  "generate_loop sample_fmt sample_draws quiet_source ()
   = (quiet_source\<lparr>current_timestamp := 7200, generated_count := 300\<rparr>, (), None)"
  by (subst generate_loop.simps, subst generate_loop.simps, subst generate_loop.simps)
     (simp add: Let_def generate_one_data_def quiet_source_def)

lemma counting_source_run:
  "snd (generate_loop sample_fmt sample_draws counting_source 0) = (2, Some ValueError)"
  by (subst generate_loop.simps, subst generate_loop.simps, subst generate_loop.simps)
     (simp add: Let_def generate_one_data_def counting_source_def third_call_fails_def)

text \<open>
  A source without a listener that has counted 298 events ends at 300 without an
  exception. A listener that raises at its third call ends the run with two events
  counted; one that raises at once ends it with none.
\<close>

theorem generate_loop_failure_propagates_witness:
  "running quiet_source \<and> generated_count quiet_source \<le> 300
   \<and> snd (snd (generate_loop sample_fmt sample_draws quiet_source ())) = None
   \<and> generated_count (fst (generate_loop sample_fmt sample_draws quiet_source ())) = 300
   \<and> running counting_source \<and> generated_count counting_source \<le> 300
   \<and> snd (snd (generate_loop sample_fmt sample_draws counting_source 0)) = Some ValueError
   \<and> generated_count (fst (generate_loop sample_fmt sample_draws counting_source 0)) < 300
   \<and> running failing_source \<and> generated_count failing_source < 300
   \<and> generated_count (fst (generate_loop sample_fmt sample_draws failing_source ())) = 0"
  using generate_loop_failure_propagates
          [of quiet_source failing_listener sample_fmt sample_draws "()" ValueError]
        generate_loop_failure_propagates
          [of counting_source third_call_fails sample_fmt sample_draws 0 ValueError]
        generate_loop_failure_propagates
          [of failing_source failing_listener sample_fmt sample_draws "()" ValueError]
        quiet_source_run counting_source_run
  by (simp add: quiet_source_def failing_source_def failing_listener_def counting_source_def
        generate_one_data_fields)

section \<open>Alert lifecycle\<close>

lemmas service_eval = sample_service_def empty_service_def send_alert_def sample_anomaly_def
  sample_user_def sample_fmt_def schedule_refresh_def app_after_def update_alert_status_def
  auto_confirm_def run_callback_def alert_status_def Let_def

lemma sample_service_open:
  "alert_status sample_service ''a1'' = Some ''open'' \<and> timers sample_service = [''a1'']"
  by (simp add: service_eval)

lemma alerts_schedule_refresh: "alerts (schedule_refresh self) = alerts self"
  by (simp add: schedule_refresh_def app_after_def split: option.splits)

lemma map_of_update_alert_status:
  "map_of (alerts (update_alert_status now aid new self)) aid'
   = (if aid' = aid \<and> map_of (alerts self) aid \<noteq> None
      then map_option (\<lambda>al. al\<lparr>status := new\<rparr>) (map_of (alerts self) aid)
      else map_of (alerts self) aid')"
  by (auto simp: update_alert_status_def Let_def alerts_schedule_refresh update_conv'
           split: option.splits)

text \<open>
  The guard of the timer does hold at the moment it is evaluated: a timer that wakes
  when the alert is no longer open changes nothing.
\<close>

lemma auto_confirm_not_open:
  "alert_status self aid \<noteq> Some ''open'' \<Longrightarrow> auto_confirm now aid self = self"
  by (auto simp: auto_confirm_def alert_status_def split: option.splits)

text \<open>
  C3, where the code departs from it. The alert \<open>a1\<close> is open and its timer sleeps. The
  timer wakes, finds the alert open and queues the confirmation for the main loop; then
  the status is set to false_positive by hand; then the main loop runs the queued
  confirmation, which assigns confirmed without looking at the status again. The manual
  status is overwritten.
\<close>

theorem auto_confirm_overwrites_manual_status:
  "alert_status sample_service ''a1'' = Some ''open''
   \<and> alert_status (run [(120, TimerWakes ''a1''), (121, SetStatus ''a1'' ''false_positive'')]
                     sample_service) ''a1'' = Some ''false_positive''
   \<and> alert_status (run [(120, TimerWakes ''a1''), (121, SetStatus ''a1'' ''false_positive''),
                        (122, MainLoopRuns)] sample_service) ''a1'' = Some ''confirmed''"
  by (simp add: service_eval)

text \<open>
  C9 as stated fails: an open alert is marked false_positive and then confirmed; the
  second call moves it along false_positive to confirmed, which is no edge of the state
  machine.
\<close>

theorem set_status_backwards_counterexample:
  "alert_status (run [(1, SetStatus ''a1'' ''false_positive'')] sample_service) ''a1''
     = Some ''false_positive''
   \<and> alert_status (run [(1, SetStatus ''a1'' ''false_positive''),
                        (2, SetStatus ''a1'' ''confirmed'')] sample_service) ''a1''
     = Some ''confirmed''
   \<and> \<not> spec_edge ''false_positive'' ''confirmed''"
  by (simp add: service_eval spec_edge_def)

text \<open>
  C9, amended. For every existing alert and every non-empty sequence of
  \<open>update_alert_status\<close> calls on it, the status after the sequence is the status the last
  call asked for, whatever the status was before: each call assigns the requested status
  and no call checks it against the state machine.
\<close>

theorem set_status_last_call_wins:
  assumes "map_of (alerts self) aid \<noteq> None" and "calls \<noteq> []"
  shows "alert_status (run (map (\<lambda>c. (fst c, SetStatus aid (snd c))) calls) self) aid
         = Some (snd (last calls))"
  using assms
proof (induction calls arbitrary: self)
  case Nil
  then show ?case by simp
next
  case (Cons c cs)
  let ?self1 = "update_alert_status (fst c) aid (snd c) self"
  have known: "map_of (alerts ?self1) aid \<noteq> None"
    using Cons.prems(1) by (simp add: map_of_update_alert_status)
  show ?case
  proof (cases "cs = []")
    case True
    with Cons.prems(1) show ?thesis
      by (auto simp: alert_status_def map_of_update_alert_status)
  next
    case False
    with Cons.IH [OF known] show ?thesis by simp
  qed
qed

theorem set_status_last_call_wins_witness:
  "map_of (alerts sample_service) ''a1'' \<noteq> None
   \<and> alert_status (run [(1, SetStatus ''a1'' ''confirmed''), (2, SetStatus ''a1'' ''open'')]
                     sample_service) ''a1'' = Some ''open''"
proof -
  have k: "map_of (alerts sample_service) ''a1'' \<noteq> None"
    by (simp add: service_eval)
  from set_status_last_call_wins [OF k, of "[(1, ''confirmed''), (2, ''open'')]"] k
  show ?thesis by simp
qed
section \<open>Calibration\<close>


text \<open>
  Nor does \<open>detect\<close> raise in double precision there: the rounded thresholds and the
  rounded upper bound are positive as well.
\<close>

lemma detect_double_no_exception:
  assumes "0 \<le> s" and "s \<le> 1" and "features d \<noteq> []"
  shows "\<exists>r. detect_double fmt uid self d (default_settings s) = Inr r"
proof -
  have pos: "round_double (round_double (round_double (11 / 10) - s) * 150) \<noteq> 0"
    "round_double (round_double (round_double (11 / 10) - s) * 1000) \<noteq> 0"
    "round_double (round_double (s * 22) + round_double (1 - round_double (s * 2))) \<noteq> 0"
    using thresholds_positive [OF assms(1,2)] transaction_bounds(2) [OF assms(1,2)]
    by simp_all
  show ?thesis
    using assms(3) pos
    by (auto simp: detect_double_def detect_rnd_def Let_def default_settings_def
             effective_sensitivity_def split: list.splits)
qed








end
